theory Spec2Isabelle
  imports Main "HOL-Library.Word" "HOL-Library.AList"
begin

section \<open>The Emscripten HTTP subtransport (emscriptenhttp-async.c)\<close>

text \<open>
  The file is compiled only under \<^verbatim>\<open>__EMSCRIPTEN__\<close>, that is for wasm32: \<^verbatim>\<open>int\<close> and
  \<^verbatim>\<open>size_t\<close> are both 32 bits wide. Both are modelled as \<open>32 word\<close>; \<open>sint\<close> reads a
  word as the C \<^verbatim>\<open>int\<close> it holds. Return codes (0 and -1) are plain integers.
  C strings are the character lists before the terminator.
\<close>

type_synonym size_t = "32 word"
type_synonym c_int = "32 word"
type_synonym bytes = "8 word list"
type_synonym addr = nat

definition NULL :: addr where
  "NULL = 0"

definition DEFAULT_BUFSIZE :: size_t where
  "DEFAULT_BUFSIZE = 65536"

definition upload_pack_ls_service_url :: string where
  "upload_pack_ls_service_url = ''/info/refs?service=git-upload-pack''"

definition upload_pack_service_url :: string where
  "upload_pack_service_url = ''/git-upload-pack''"

definition receive_pack_ls_service_url :: string where
  "receive_pack_ls_service_url = ''/info/refs?service=git-receive-pack''"

definition receive_pack_service_url :: string where
  "receive_pack_service_url = ''/git-receive-pack''"

subsection \<open>Data\<close>

text \<open>
  The function slots of the two interface structs hold one of the functions of this file,
  or nothing (the zeroed slot that \<^verbatim>\<open>git__calloc\<close> leaves).
\<close>

datatype fnptr =
    Fn_NULL
  | Fn_emscriptenhttp_stream_read
  | Fn_emscriptenhttp_stream_write_single
  | Fn_emscriptenhttp_stream_free
  | Fn_emscriptenhttp_action
  | Fn_emscriptenhttp_close
  | Fn_emscriptenhttp_free

text \<open>
  \<^verbatim>\<open>emscriptenhttp_stream\<close>: the four fields of \<^verbatim>\<open>parent\<close> (\<^verbatim>\<open>parent.subtransport\<close>,
  \<^verbatim>\<open>parent.read\<close>, \<^verbatim>\<open>parent.write\<close>, \<^verbatim>\<open>parent.free\<close>), then \<^verbatim>\<open>service_url\<close>
  (\<open>None\<close> is the null pointer) and \<^verbatim>\<open>connectionNo\<close>.
\<close>

record emscriptenhttp_stream =
  stream_subtransport :: addr
  stream_read :: fnptr
  stream_write :: fnptr
  stream_free :: fnptr
  service_url :: "string option"
  connectionNo :: c_int

text \<open>
  \<^verbatim>\<open>emscriptenhttp_subtransport\<close>: the three slots of \<^verbatim>\<open>parent\<close> and \<^verbatim>\<open>owner\<close>.
\<close>

record emscriptenhttp_subtransport =
  subtransport_action :: fnptr
  subtransport_close :: fnptr
  subtransport_free :: fnptr
  owner :: addr

datatype obj =
    Stream emscriptenhttp_stream
  | Subtransport emscriptenhttp_subtransport

text \<open>
  \<^verbatim>\<open>git_smart_service_t\<close> is declared in git2/sys/transport.h with the four enumerators
  the \<^verbatim>\<open>switch\<close> names. A C caller can pass any other value of the underlying integer
  type: \<open>GIT_SERVICE_OTHER\<close> stands for all of them (the \<^verbatim>\<open>switch\<close> has no case for them
  and no default).
\<close>

datatype git_smart_service_t =
    GIT_SERVICE_UPLOADPACK_LS
  | GIT_SERVICE_UPLOADPACK
  | GIT_SERVICE_RECEIVEPACK_LS
  | GIT_SERVICE_RECEIVEPACK
  | GIT_SERVICE_OTHER

subsection \<open>The host\<close>

text \<open>
  The JavaScript object \<^verbatim>\<open>Module\<close> supplies three handlers. They are parameters of the
  model: any functions over a host state \<open>'h\<close> of the host's own.
  \<^item> \<^verbatim>\<open>emscriptenhttpconnect(url, buf_size [, method, headers])\<close> returns the connection
    number; the third argument is \<open>None\<close> when the call passes two arguments;
  \<^item> \<^verbatim>\<open>emscriptenhttpread(connectionNo, buffer, buf_size)\<close> returns the 32-bit result
    that the C side declares \<^verbatim>\<open>size_t\<close>, and what it left in the buffer;
  \<^item> \<^verbatim>\<open>emscriptenhttpwrite(connectionNo, buffer, len)\<close> returns a value that the
    \<^verbatim>\<open>EM_ASM\<close> block drops.
\<close>

type_synonym headers = "(string \<times> string) list"

record 'h Module =
  emscriptenhttpconnect ::
    "string \<Rightarrow> size_t \<Rightarrow> (string \<times> headers) option \<Rightarrow> 'h \<Rightarrow> c_int \<times> 'h"
  emscriptenhttpread ::
    "c_int \<Rightarrow> bytes \<Rightarrow> size_t \<Rightarrow> 'h \<Rightarrow> (size_t \<times> bytes) \<times> 'h"
  emscriptenhttpwrite ::
    "c_int \<Rightarrow> bytes \<Rightarrow> size_t \<Rightarrow> 'h \<Rightarrow> c_int \<times> 'h"

text \<open>
  Every call of a handler is recorded, in order, with its arguments and, last, the
  value it returned.
\<close>

datatype host_call =
    Connect string size_t "(string \<times> headers) option" c_int
  | HostRead c_int bytes size_t size_t
  | HostWrite c_int bytes size_t c_int

text \<open>
  The state the functions of the file act on: the allocated objects by address, the
  host's state, the record of the host calls made so far, and the error that
  \<^verbatim>\<open>git_error_set\<close> stored last (class and message).
\<close>

record 'h world =
  heap :: "(addr \<times> obj) list"
  host :: 'h
  trace :: "host_call list"
  git_error :: "(int \<times> string) option"

definition git_error_set :: "int \<Rightarrow> string \<Rightarrow> 'h world \<Rightarrow> 'h world" where
  "git_error_set error_class msg \<sigma> = \<sigma>\<lparr>git_error := Some (error_class, msg)\<rparr>"

subsection \<open>Memory\<close>

text \<open>
  Modelled from the spec: \<^verbatim>\<open>git__calloc\<close>, \<^verbatim>\<open>git__free\<close> and \<^verbatim>\<open>GIT_ERROR_CHECK_ALLOC\<close>
  are libgit2's allocator, declared outside this file. The spec (section 7) says that
  allocation failures abort through the host allocator, so that \<^verbatim>\<open>git__calloc\<close> returns
  a block that is new, not null and zeroed whenever it returns. Freeing the null pointer
  does nothing; freeing an address that holds no object is undefined (\<open>None\<close>).
\<close>

fun fresh :: "(addr \<times> obj) list \<Rightarrow> addr" where
  "fresh [] = 1"
| "fresh ((a, _) # h) = max (Suc a) (fresh h)"

definition git__calloc :: "obj \<Rightarrow> 'h world \<Rightarrow> addr \<times> 'h world" where
  "git__calloc zeroed \<sigma> =
     (let p = fresh (heap \<sigma>) in (p, \<sigma>\<lparr>heap := (p, zeroed) # heap \<sigma>\<rparr>))"

definition git__free :: "addr \<Rightarrow> 'h world \<Rightarrow> 'h world option" where
  "git__free p \<sigma> =
     (if p = NULL then Some \<sigma>
      else (case map_of (heap \<sigma>) p of
              None \<Rightarrow> None
            | Some _ \<Rightarrow> Some (\<sigma>\<lparr>heap := AList.delete p (heap \<sigma>)\<rparr>)))"

definition zeroed_stream :: emscriptenhttp_stream where
  "zeroed_stream =
     \<lparr>stream_subtransport = NULL, stream_read = Fn_NULL, stream_write = Fn_NULL,
      stream_free = Fn_NULL, service_url = None, connectionNo = 0\<rparr>"

definition zeroed_subtransport :: emscriptenhttp_subtransport where
  "zeroed_subtransport =
     \<lparr>subtransport_action = Fn_NULL, subtransport_close = Fn_NULL,
      subtransport_free = Fn_NULL, owner = NULL\<rparr>"

text \<open>
  Reading a stream through a pointer, and writing its fields back. A pointer that does
  not hold a stream cannot be read (\<open>None\<close>: the cast and the access are undefined in C).
\<close>

definition stream_at :: "'h world \<Rightarrow> addr \<Rightarrow> emscriptenhttp_stream option" where
  "stream_at \<sigma> p = (case map_of (heap \<sigma>) p of Some (Stream s) \<Rightarrow> Some s | _ \<Rightarrow> None)"

definition store_stream :: "addr \<Rightarrow> emscriptenhttp_stream \<Rightarrow> 'h world \<Rightarrow> 'h world" where
  "store_stream p s \<sigma> = \<sigma>\<lparr>heap := AList.update p (Stream s) (heap \<sigma>)\<rparr>"

definition subtransport_at :: "'h world \<Rightarrow> addr \<Rightarrow> emscriptenhttp_subtransport option" where
  "subtransport_at \<sigma> p =
     (case map_of (heap \<sigma>) p of Some (Subtransport t) \<Rightarrow> Some t | _ \<Rightarrow> None)"

definition store_subtransport ::
  "addr \<Rightarrow> emscriptenhttp_subtransport \<Rightarrow> 'h world \<Rightarrow> 'h world" where
  "store_subtransport p t \<sigma> = \<sigma>\<lparr>heap := AList.update p (Subtransport t) (heap \<sigma>)\<rparr>"

subsection \<open>The string buffer\<close>

text \<open>
  Modelled from the spec: \<^verbatim>\<open>git_str\<close>, \<^verbatim>\<open>GIT_STR_INIT\<close>, \<^verbatim>\<open>git_str_printf\<close> and
  \<^verbatim>\<open>git_str_cstr\<close> are libgit2's string buffer, declared outside this file. The buffer
  starts empty, the format \<^verbatim>\<open>"%s%s"\<close> appends its two string arguments (section 4.1:
  the base URL is concatenated with the suffix), and \<^verbatim>\<open>git_str_cstr\<close> is a pointer to
  the characters of the buffer.
\<close>

type_synonym git_str = string

definition GIT_STR_INIT :: git_str where
  "GIT_STR_INIT = []"

definition git_str_printf :: "git_str \<Rightarrow> string \<Rightarrow> string \<Rightarrow> git_str" where
  "git_str_printf buf a b = buf @ a @ b"

definition git_str_cstr :: "git_str \<Rightarrow> string option" where
  "git_str_cstr buf = Some buf"

subsection \<open>The asyncified host calls\<close>

text \<open>
  \<^verbatim>\<open>UTF8ToString\<close> of the Emscripten runtime: the string at the pointer, the empty string
  for the null pointer.
\<close>

fun UTF8ToString :: "string option \<Rightarrow> string" where
  "UTF8ToString None = []"
| "UTF8ToString (Some s) = s"

text \<open>
  JavaScript's \<^verbatim>\<open>String.prototype.indexOf\<close>: the position of the first occurrence of
  the pattern, -1 when there is none. (JavaScript counts UTF-16 units and the model
  bytes; for a URL that is valid UTF-8 and a pattern of ASCII characters the two agree on
  whether the position is 0, positive or -1.)
\<close>

fun indexOf :: "string \<Rightarrow> string \<Rightarrow> int" where
  "indexOf [] pat = (if pat = [] then 0 else -1)"
| "indexOf (c # cs) pat =
     (if take (length pat) (c # cs) = pat then 0
      else (let i = indexOf cs pat in if i < 0 then -1 else i + 1))"

definition emscriptenhttp_do_get ::
  "'h Module \<Rightarrow> string option \<Rightarrow> size_t \<Rightarrow> 'h world \<Rightarrow> c_int \<times> 'h world" where
  "emscriptenhttp_do_get M url buf_size \<sigma> =
     (let urlString = UTF8ToString url;
          (r, h) = emscriptenhttpconnect M urlString buf_size None (host \<sigma>)
      in (r, \<sigma>\<lparr>host := h, trace := trace \<sigma> @ [Connect urlString buf_size None r]\<rparr>))"

definition emscriptenhttp_do_post ::
  "'h Module \<Rightarrow> string option \<Rightarrow> size_t \<Rightarrow> 'h world \<Rightarrow> c_int \<times> 'h world" where
  "emscriptenhttp_do_post M url buf_size \<sigma> =
     (let urlString = UTF8ToString url;
          opts = Some (''POST'',
                  [(''Content-Type'',
                    if indexOf urlString ''git-upload-pack'' > 0
                    then ''application/x-git-upload-pack-request''
                    else ''application/x-git-receive-pack-request'')]);
          (r, h) = emscriptenhttpconnect M urlString buf_size opts (host \<sigma>)
      in (r, \<sigma>\<lparr>host := h, trace := trace \<sigma> @ [Connect urlString buf_size opts r]\<rparr>))"

definition emscriptenhttp_do_read ::
  "'h Module \<Rightarrow> c_int \<Rightarrow> bytes \<Rightarrow> size_t \<Rightarrow> 'h world \<Rightarrow> (size_t \<times> bytes) \<times> 'h world" where
  "emscriptenhttp_do_read M connNo buffer buf_size \<sigma> =
     (let (r, h) = emscriptenhttpread M connNo buffer buf_size (host \<sigma>)
      in (r, \<sigma>\<lparr>host := h, trace := trace \<sigma> @ [HostRead connNo buffer buf_size (fst r)]\<rparr>))"

text \<open>The \<^verbatim>\<open>EM_ASM\<close> block of the write: the handler's value does not come back.\<close>

definition em_asm_emscriptenhttpwrite ::
  "'h Module \<Rightarrow> c_int \<Rightarrow> bytes \<Rightarrow> size_t \<Rightarrow> 'h world \<Rightarrow> 'h world" where
  "em_asm_emscriptenhttpwrite M connNo buffer len \<sigma> =
     (let (v, h) = emscriptenhttpwrite M connNo buffer len (host \<sigma>)
      in \<sigma>\<lparr>host := h, trace := trace \<sigma> @ [HostWrite connNo buffer len v]\<rparr>)"

subsection \<open>The stream\<close>

text \<open>
  Every function that goes through a pointer returns \<open>None\<close> where the pointer holds no
  object of the type it is cast to. An out-parameter is passed as the value the caller's
  cell holds and returned as the value it holds afterwards.
\<close>

definition emscriptenhttp_stream_free :: "addr \<Rightarrow> 'h world \<Rightarrow> 'h world option" where
  "emscriptenhttp_stream_free stream \<sigma> = (let s = stream in git__free s \<sigma>)"

text \<open>
  \<^verbatim>\<open>emscriptenhttp_stream_read(stream, buffer, buf_size, bytes_read)\<close> returns the return
  code, the buffer as the host left it, and the caller's \<^verbatim>\<open>*bytes_read\<close>.
\<close>

definition emscriptenhttp_stream_read ::
  "'h Module \<Rightarrow> addr \<Rightarrow> bytes \<Rightarrow> size_t \<Rightarrow> size_t \<Rightarrow> 'h world
     \<Rightarrow> (int \<times> bytes \<times> size_t \<times> 'h world) option" where
  "emscriptenhttp_stream_read M stream buffer buf_size bytes_read \<sigma> =
     (case stream_at \<sigma> stream of
        None \<Rightarrow> None
      | Some s \<Rightarrow>
          let (s, \<sigma>) =
                (if connectionNo s = - 1
                 then (let (c, \<sigma>) = emscriptenhttp_do_get M (service_url s) DEFAULT_BUFSIZE \<sigma>;
                           s = s\<lparr>connectionNo := c\<rparr>
                       in (s, store_stream stream s \<sigma>))
                 else (s, \<sigma>));
              ((r, buffer), \<sigma>) = emscriptenhttp_do_read M (connectionNo s) buffer buf_size \<sigma>;
              read = r
          in if sint read < 0
             then Some (- 1, buffer, bytes_read, git_error_set 0 ''request aborted by user'' \<sigma>)
             else Some (0, buffer, read, \<sigma>))"

definition emscriptenhttp_stream_write_single ::
  "'h Module \<Rightarrow> addr \<Rightarrow> bytes \<Rightarrow> size_t \<Rightarrow> 'h world \<Rightarrow> (int \<times> 'h world) option" where
  "emscriptenhttp_stream_write_single M stream buffer len \<sigma> =
     (case stream_at \<sigma> stream of
        None \<Rightarrow> None
      | Some s \<Rightarrow>
          let (s, \<sigma>) =
                (if connectionNo s = - 1
                 then (let (c, \<sigma>) = emscriptenhttp_do_post M (service_url s) DEFAULT_BUFSIZE \<sigma>;
                           s = s\<lparr>connectionNo := c\<rparr>
                       in (s, store_stream stream s \<sigma>))
                 else (s, \<sigma>));
              \<sigma> = em_asm_emscriptenhttpwrite M (connectionNo s) buffer len \<sigma>
          in Some (0, \<sigma>))"

text \<open>
  \<^verbatim>\<open>emscriptenhttp_stream_alloc(t, stream)\<close>: the out-pointer \<^verbatim>\<open>stream\<close> is \<open>None\<close> when
  it is null and \<open>Some v\<close> when it points to a cell holding \<open>v\<close>; the second component of
  the result is the cell afterwards.
\<close>

definition emscriptenhttp_stream_alloc ::
  "addr \<Rightarrow> addr option \<Rightarrow> 'h world \<Rightarrow> (int \<times> addr option \<times> 'h world) option" where
  "emscriptenhttp_stream_alloc t stream \<sigma> =
     (case stream of
        None \<Rightarrow> Some (- 1, None, \<sigma>)
      | Some _ \<Rightarrow>
          let (s, \<sigma>) = git__calloc (Stream zeroed_stream) \<sigma>
          in if s = NULL then Some (- 1, stream, \<sigma>)
             else (case stream_at \<sigma> s of
                     None \<Rightarrow> None
                   | Some st \<Rightarrow>
                       Some (0, Some s,
                             store_stream s
                               (st\<lparr>stream_subtransport := t,
                                   stream_read := Fn_emscriptenhttp_stream_read,
                                   stream_write := Fn_emscriptenhttp_stream_write_single,
                                   stream_free := Fn_emscriptenhttp_stream_free,
                                   connectionNo := - 1\<rparr>) \<sigma>)))"

text \<open>
  \<^verbatim>\<open>emscriptenhttp_action(stream, subtransport, url, action)\<close>: \<open>stream\<close> is the value in
  the caller's cell \<^verbatim>\<open>*stream\<close>, returned as the second component. The local \<^verbatim>\<open>s\<close> is
  not initialised before its address goes to \<^verbatim>\<open>emscriptenhttp_stream_alloc\<close>, which never
  reads it.
\<close>

definition emscriptenhttp_action ::
  "addr \<Rightarrow> addr \<Rightarrow> string \<Rightarrow> git_smart_service_t \<Rightarrow> 'h world
     \<Rightarrow> (int \<times> addr \<times> 'h world) option" where
  "emscriptenhttp_action stream subtransport url action \<sigma> =
     (let t = subtransport in
      case emscriptenhttp_stream_alloc t (Some NULL) \<sigma> of
        None \<Rightarrow> None
      | Some (rc, cell, \<sigma>) \<Rightarrow>
          if rc < 0 then Some (- 1, stream, \<sigma>)
          else (case cell of
                  None \<Rightarrow> None
                | Some s \<Rightarrow>
                    let buf = GIT_STR_INIT;
                        buf = (case action of
                                 GIT_SERVICE_UPLOADPACK_LS \<Rightarrow>
                                   git_str_printf buf url upload_pack_ls_service_url
                               | GIT_SERVICE_UPLOADPACK \<Rightarrow>
                                   git_str_printf buf url upload_pack_service_url
                               | GIT_SERVICE_RECEIVEPACK_LS \<Rightarrow>
                                   git_str_printf buf url receive_pack_ls_service_url
                               | GIT_SERVICE_RECEIVEPACK \<Rightarrow>
                                   git_str_printf buf url receive_pack_service_url
                               | GIT_SERVICE_OTHER \<Rightarrow> buf)
                    in (case stream_at \<sigma> s of
                          None \<Rightarrow> None
                        | Some st \<Rightarrow>
                            Some (0, s,
                                  store_stream s (st\<lparr>service_url := git_str_cstr buf\<rparr>) \<sigma>))))"

subsection \<open>The subtransport\<close>

definition emscriptenhttp_close :: "addr \<Rightarrow> 'h world \<Rightarrow> int \<times> 'h world" where
  "emscriptenhttp_close subtransport \<sigma> = (0, \<sigma>)"

definition emscriptenhttp_free :: "addr \<Rightarrow> 'h world \<Rightarrow> 'h world option" where
  "emscriptenhttp_free subtransport \<sigma> =
     (let t = subtransport;
          (_, \<sigma>) = emscriptenhttp_close subtransport \<sigma>
      in git__free t \<sigma>)"

text \<open>
  \<^verbatim>\<open>git_smart_subtransport_http(out, owner, param)\<close>: \<open>out\<close> is the out-pointer, as in
  \<open>emscriptenhttp_stream_alloc\<close>; \<open>param\<close> is unused.
\<close>

definition git_smart_subtransport_http ::
  "addr option \<Rightarrow> addr \<Rightarrow> 'p \<Rightarrow> 'h world \<Rightarrow> (int \<times> addr option \<times> 'h world) option" where
  "git_smart_subtransport_http out transport_owner param \<sigma> =
     (case out of
        None \<Rightarrow> Some (- 1, None, \<sigma>)
      | Some _ \<Rightarrow>
          let (t, \<sigma>) = git__calloc (Subtransport zeroed_subtransport) \<sigma>
          in if t = NULL then Some (- 1, out, \<sigma>)
             else (case subtransport_at \<sigma> t of
                     None \<Rightarrow> None
                   | Some st \<Rightarrow>
                       Some (0, Some t,
                             store_subtransport t
                               (st\<lparr>owner := transport_owner,
                                   subtransport_action := Fn_emscriptenhttp_action,
                                   subtransport_close := Fn_emscriptenhttp_close,
                                   subtransport_free := Fn_emscriptenhttp_free\<rparr>) \<sigma>)))"

subsection \<open>Sequences of calls on one stream\<close>

text \<open>
  The driver that owns a stream calls its \<^verbatim>\<open>read\<close> and \<^verbatim>\<open>write\<close> slots any number of
  times, in any order. A call is the slot with its buffer and size; the return code and
  the out-parameters stay with the driver, the world goes on to the next call.
\<close>

datatype stream_call =
    Read_call bytes size_t
  | Write_call bytes size_t

fun do_call :: "'h Module \<Rightarrow> addr \<Rightarrow> stream_call \<Rightarrow> 'h world \<Rightarrow> 'h world option" where
  "do_call M stream (Read_call buffer buf_size) \<sigma> =
     map_option (snd \<circ> snd \<circ> snd) (emscriptenhttp_stream_read M stream buffer buf_size 0 \<sigma>)"
| "do_call M stream (Write_call buffer len) \<sigma> =
     map_option snd (emscriptenhttp_stream_write_single M stream buffer len \<sigma>)"

fun do_calls :: "'h Module \<Rightarrow> addr \<Rightarrow> stream_call list \<Rightarrow> 'h world \<Rightarrow> 'h world option" where
  "do_calls M stream [] \<sigma> = Some \<sigma>"
| "do_calls M stream (c # cs) \<sigma> =
     (case do_call M stream c \<sigma> of
        None \<Rightarrow> None
      | Some \<sigma>' \<Rightarrow> do_calls M stream cs \<sigma>')"

text \<open>The host calls made between an earlier world and a later one.\<close>

definition new_calls :: "'h world \<Rightarrow> 'h world \<Rightarrow> host_call list" where
  "new_calls \<sigma> \<sigma>' = drop (length (trace \<sigma>)) (trace \<sigma>')"

fun is_open :: "host_call \<Rightarrow> bool" where
  "is_open (Connect _ _ _ _) = True"
| "is_open _ = False"

fun is_get :: "host_call \<Rightarrow> bool" where
  "is_get (Connect _ _ None _) = True"
| "is_get _ = False"

fun is_post :: "host_call \<Rightarrow> bool" where
  "is_post (Connect _ _ (Some (m, _)) _) = (m = ''POST'')"
| "is_post _ = False"

definition opens :: "host_call list \<Rightarrow> nat" where
  "opens calls = length (filter is_open calls)"

text \<open>The handle a host call other than an open is made on.\<close>

fun on_handle :: "c_int \<Rightarrow> host_call \<Rightarrow> bool" where
  "on_handle c (Connect _ _ _ _) = False"
| "on_handle c (HostRead c' _ _ _) = (c' = c)"
| "on_handle c (HostWrite c' _ _ _) = (c' = c)"

text \<open>The handle of the stream at an address, when there is one.\<close>

definition handle_at :: "'h world \<Rightarrow> addr \<Rightarrow> c_int option" where
  "handle_at \<sigma> p = map_option connectionNo (stream_at \<sigma> p)"

definition url_at :: "'h world \<Rightarrow> addr \<Rightarrow> string option" where
  "url_at \<sigma> p = (case stream_at \<sigma> p of None \<Rightarrow> None | Some s \<Rightarrow> service_url s)"

text \<open>
  A stream comes from \<^verbatim>\<open>emscriptenhttp_action\<close>; \<open>action_then_calls\<close> creates one and
  makes the calls on it.
\<close>

definition action_then_calls ::
  "'h Module \<Rightarrow> addr \<Rightarrow> string \<Rightarrow> git_smart_service_t \<Rightarrow> stream_call list \<Rightarrow> 'h world
     \<Rightarrow> 'h world option" where
  "action_then_calls M subtransport url action cs \<sigma> =
     (case emscriptenhttp_action NULL subtransport url action \<sigma> of
        None \<Rightarrow> None
      | Some (rc, stream, \<sigma>') \<Rightarrow> if rc < 0 then None else do_calls M stream cs \<sigma>')"

subsection \<open>Concrete hosts and worlds\<close>

text \<open>
  A host that numbers its connections from 0, has three bytes for every read and
  accepts every write.
\<close>

definition counting_host :: "nat Module" where
  "counting_host =
     \<lparr>emscriptenhttpconnect = (\<lambda>url buf_size opts h. (of_nat h, Suc h)),
      emscriptenhttpread = (\<lambda>c buffer buf_size h. ((3, buffer), h)),
      emscriptenhttpwrite = (\<lambda>c buffer len h. (0, h))\<rparr>"

text \<open>A host whose reads are aborted: it returns -1.\<close>

definition aborting_host :: "nat Module" where
  "aborting_host =
     \<lparr>emscriptenhttpconnect = (\<lambda>url buf_size opts h. (of_nat h, Suc h)),
      emscriptenhttpread = (\<lambda>c buffer buf_size h. ((- 1, buffer), h)),
      emscriptenhttpwrite = (\<lambda>c buffer len h. (0, h))\<rparr>"

text \<open>A host whose connect handler returns -1, and whose writes return -1 too.\<close>

definition refusing_host :: "nat Module" where
  "refusing_host =
     \<lparr>emscriptenhttpconnect = (\<lambda>url buf_size opts h. (- 1, Suc h)),
      emscriptenhttpread = (\<lambda>c buffer buf_size h. ((0, buffer), h)),
      emscriptenhttpwrite = (\<lambda>c buffer len h. (- 1, h))\<rparr>"

text \<open>A host whose read handler returns 10 whatever the capacity.\<close>

definition overlong_host :: "nat Module" where
  "overlong_host =
     \<lparr>emscriptenhttpconnect = (\<lambda>url buf_size opts h. (of_nat h, Suc h)),
      emscriptenhttpread = (\<lambda>c buffer buf_size h. ((10, buffer), h)),
      emscriptenhttpwrite = (\<lambda>c buffer len h. (0, h))\<rparr>"

definition empty_world :: "nat world" where
  "empty_world = \<lparr>heap = [], host = 0, trace = [], git_error = None\<rparr>"

text \<open>
  The stream that \<open>emscriptenhttp_action\<close> makes in the empty world for subtransport 0:
  it is at address 1.
\<close>

definition stream_for :: "string option \<Rightarrow> c_int \<Rightarrow> emscriptenhttp_stream" where
  "stream_for url c =
     \<lparr>stream_subtransport = 0,
      stream_read = Fn_emscriptenhttp_stream_read,
      stream_write = Fn_emscriptenhttp_stream_write_single,
      stream_free = Fn_emscriptenhttp_stream_free,
      service_url = url, connectionNo = c\<rparr>"

definition world_with :: "obj \<Rightarrow> nat world" where
  "world_with x = \<lparr>heap = [(1, x)], host = 0, trace = [], git_error = None\<rparr>"

text \<open>The subtransport that \<open>git_smart_subtransport_http\<close> makes for an owner.\<close>

definition subtransport_for :: "addr \<Rightarrow> emscriptenhttp_subtransport" where
  "subtransport_for ow =
     \<lparr>subtransport_action = Fn_emscriptenhttp_action,
      subtransport_close = Fn_emscriptenhttp_close,
      subtransport_free = Fn_emscriptenhttp_free,
      owner = ow\<rparr>"

section \<open>Properties\<close>

subsection \<open>Allocation and the action\<close>

lemma fresh_gt: "(a, v) \<in> set h \<Longrightarrow> a < fresh h"
  by (induction h) auto

lemma fresh_pos: "0 < fresh h"
  by (induction h) auto

lemma map_of_fresh: "map_of h (fresh h) = None"
  using fresh_gt[of "fresh h" _ h] by (auto simp: map_of_eq_None_iff image_iff)

lemma emscriptenhttp_stream_alloc_eq:
  "emscriptenhttp_stream_alloc t (Some v) \<sigma> =
     Some (0, Some (fresh (heap \<sigma>)),
           \<sigma>\<lparr>heap := (fresh (heap \<sigma>),
                       Stream \<lparr>stream_subtransport = t,
                               stream_read = Fn_emscriptenhttp_stream_read,
                               stream_write = Fn_emscriptenhttp_stream_write_single,
                               stream_free = Fn_emscriptenhttp_stream_free,
                               service_url = None, connectionNo = - 1\<rparr>) # heap \<sigma>\<rparr>)"
  using fresh_pos [of "heap \<sigma>"]
  by (simp add: emscriptenhttp_stream_alloc_def git__calloc_def NULL_def stream_at_def
      store_stream_def zeroed_stream_def Let_def)

lemma emscriptenhttp_action_eq:
  "emscriptenhttp_action stream t url action \<sigma> =
     Some (0, fresh (heap \<sigma>),
           \<sigma>\<lparr>heap := (fresh (heap \<sigma>),
                       Stream \<lparr>stream_subtransport = t,
                               stream_read = Fn_emscriptenhttp_stream_read,
                               stream_write = Fn_emscriptenhttp_stream_write_single,
                               stream_free = Fn_emscriptenhttp_stream_free,
                               service_url =
                                 Some (case action of
                                         GIT_SERVICE_UPLOADPACK_LS \<Rightarrow> url @ upload_pack_ls_service_url
                                       | GIT_SERVICE_UPLOADPACK \<Rightarrow> url @ upload_pack_service_url
                                       | GIT_SERVICE_RECEIVEPACK_LS \<Rightarrow> url @ receive_pack_ls_service_url
                                       | GIT_SERVICE_RECEIVEPACK \<Rightarrow> url @ receive_pack_service_url
                                       | GIT_SERVICE_OTHER \<Rightarrow> []),
                               connectionNo = - 1\<rparr>) # heap \<sigma>\<rparr>)"
  by (cases action)
    (simp_all add: emscriptenhttp_action_def emscriptenhttp_stream_alloc_eq stream_at_def
      store_stream_def GIT_STR_INIT_def git_str_printf_def git_str_cstr_def Let_def)

lemma action_in_empty_world:
  "emscriptenhttp_action NULL 0 url action empty_world =
     Some (0, 1, world_with (Stream (stream_for
       (Some (case action of
                GIT_SERVICE_UPLOADPACK_LS \<Rightarrow> url @ upload_pack_ls_service_url
              | GIT_SERVICE_UPLOADPACK \<Rightarrow> url @ upload_pack_service_url
              | GIT_SERVICE_RECEIVEPACK_LS \<Rightarrow> url @ receive_pack_ls_service_url
              | GIT_SERVICE_RECEIVEPACK \<Rightarrow> url @ receive_pack_service_url
              | GIT_SERVICE_OTHER \<Rightarrow> [])) (- 1))))"
  by (simp add: emscriptenhttp_action_eq empty_world_def world_with_def stream_for_def)

subsection \<open>C1: the service URL of each action\<close>

text \<open>
  C1. Whenever \<open>emscriptenhttp_action\<close> returns 0 for one of the four services, the
  stream it hands back has as its service URL the base URL followed by the suffix of
  that service: \<^verbatim>\<open>/info/refs?service=git-upload-pack\<close>, \<^verbatim>\<open>/git-upload-pack\<close>,
  \<^verbatim>\<open>/info/refs?service=git-receive-pack\<close>, \<^verbatim>\<open>/git-receive-pack\<close>.
\<close>

theorem emscriptenhttp_action_service_url:
  assumes "emscriptenhttp_action stream subtransport url action \<sigma> = Some (0, s, \<sigma>')"
  shows "(action = GIT_SERVICE_UPLOADPACK_LS \<longrightarrow>
            url_at \<sigma>' s = Some (url @ ''/info/refs?service=git-upload-pack'')) \<and>
         (action = GIT_SERVICE_UPLOADPACK \<longrightarrow>
            url_at \<sigma>' s = Some (url @ ''/git-upload-pack'')) \<and>
         (action = GIT_SERVICE_RECEIVEPACK_LS \<longrightarrow>
            url_at \<sigma>' s = Some (url @ ''/info/refs?service=git-receive-pack'')) \<and>
         (action = GIT_SERVICE_RECEIVEPACK \<longrightarrow>
            url_at \<sigma>' s = Some (url @ ''/git-receive-pack''))"
  using assms unfolding emscriptenhttp_action_eq
  by (auto simp: url_at_def stream_at_def upload_pack_ls_service_url_def
      upload_pack_service_url_def receive_pack_ls_service_url_def receive_pack_service_url_def)

theorem emscriptenhttp_action_service_url_witness:
  "emscriptenhttp_action NULL 0 ''https://example.org/repo.git'' GIT_SERVICE_UPLOADPACK_LS empty_world =
     Some (0, 1, world_with (Stream (stream_for
       (Some ''https://example.org/repo.git/info/refs?service=git-upload-pack'') (- 1)))) \<and>
   url_at (world_with (Stream (stream_for
       (Some ''https://example.org/repo.git/info/refs?service=git-upload-pack'') (- 1)))) 1 =
     Some ''https://example.org/repo.git/info/refs?service=git-upload-pack'' \<and>
   emscriptenhttp_action NULL 0 ''https://example.org/repo.git'' GIT_SERVICE_RECEIVEPACK empty_world =
     Some (0, 1, world_with (Stream (stream_for
       (Some ''https://example.org/repo.git/git-receive-pack'') (- 1)))) \<and>
   url_at (world_with (Stream (stream_for
       (Some ''https://example.org/repo.git/git-receive-pack'') (- 1)))) 1 =
     Some ''https://example.org/repo.git/git-receive-pack''"
proof -
  have a: "emscriptenhttp_action NULL 0 ''https://example.org/repo.git'' GIT_SERVICE_UPLOADPACK_LS
             empty_world =
           Some (0, 1, world_with (Stream (stream_for
             (Some ''https://example.org/repo.git/info/refs?service=git-upload-pack'') (- 1))))"
    by (simp add: action_in_empty_world upload_pack_ls_service_url_def)
  have b: "emscriptenhttp_action NULL 0 ''https://example.org/repo.git'' GIT_SERVICE_RECEIVEPACK
             empty_world =
           Some (0, 1, world_with (Stream (stream_for
             (Some ''https://example.org/repo.git/git-receive-pack'') (- 1))))"
    by (simp add: action_in_empty_world receive_pack_service_url_def)
  show ?thesis
    using a b emscriptenhttp_action_service_url [OF a] emscriptenhttp_action_service_url [OF b]
    by simp
qed

subsection \<open>C10: an action outside the four services\<close>

text \<open>
  C10. For an action that is none of the four services, \<open>emscriptenhttp_action\<close> still
  returns 0. The stream it hands back is at an address that is not null and held no
  object before, its service URL is the empty string and its connection handle is the
  sentinel -1; every other object, the host, the record of host calls and the stored
  error are as before.
\<close>

theorem emscriptenhttp_action_other:
  assumes "action \<notin> {GIT_SERVICE_UPLOADPACK_LS, GIT_SERVICE_UPLOADPACK,
                      GIT_SERVICE_RECEIVEPACK_LS, GIT_SERVICE_RECEIVEPACK}"
  shows "\<exists>s \<sigma>' st.
           emscriptenhttp_action stream subtransport url action \<sigma> = Some (0, s, \<sigma>') \<and>
           s \<noteq> NULL \<and> map_of (heap \<sigma>) s = None \<and>
           stream_at \<sigma>' s = Some st \<and>
           service_url st = Some [] \<and> connectionNo st = - 1 \<and>
           (\<forall>p. p \<noteq> s \<longrightarrow> map_of (heap \<sigma>') p = map_of (heap \<sigma>) p) \<and>
           host \<sigma>' = host \<sigma> \<and> trace \<sigma>' = trace \<sigma> \<and> git_error \<sigma>' = git_error \<sigma>"
proof -
  from assms have a: "action = GIT_SERVICE_OTHER"
    by (cases action) simp_all
  have "fresh (heap \<sigma>) \<noteq> NULL"
    using fresh_pos [of "heap \<sigma>"] by (simp add: NULL_def)
  then show ?thesis
    unfolding emscriptenhttp_action_eq a
    by (simp add: map_of_fresh stream_at_def)
qed

theorem emscriptenhttp_action_other_witness:
  "GIT_SERVICE_OTHER \<notin> {GIT_SERVICE_UPLOADPACK_LS, GIT_SERVICE_UPLOADPACK,
                         GIT_SERVICE_RECEIVEPACK_LS, GIT_SERVICE_RECEIVEPACK} \<and>
   emscriptenhttp_action NULL 0 ''https://example.org/repo.git'' GIT_SERVICE_OTHER empty_world =
     Some (0, 1, world_with (Stream (stream_for (Some []) (- 1))))"
proof -
  have h: "GIT_SERVICE_OTHER \<notin> {GIT_SERVICE_UPLOADPACK_LS, GIT_SERVICE_UPLOADPACK,
                         GIT_SERVICE_RECEIVEPACK_LS, GIT_SERVICE_RECEIVEPACK}"
    by simp
  have e: "emscriptenhttp_action NULL 0 ''https://example.org/repo.git'' GIT_SERVICE_OTHER
             empty_world =
           Some (0, 1, world_with (Stream (stream_for (Some []) (- 1))))"
    by (simp add: emscriptenhttp_action_eq empty_world_def world_with_def stream_for_def)
  show ?thesis
    using h e emscriptenhttp_action_other [OF h, of NULL 0 "''https://example.org/repo.git''" empty_world]
    by simp
qed

subsection \<open>Reads and writes\<close>

lemma stream_at_store_same: "stream_at (store_stream p s \<sigma>) p = Some s"
  by (simp add: stream_at_def store_stream_def update_conv')

lemma stream_at_frame:
  "stream_at (\<sigma>\<lparr>host := h, trace := tr\<rparr>) p = stream_at \<sigma> p"
  "stream_at (\<sigma>\<lparr>host := h, trace := tr, git_error := e\<rparr>) p = stream_at \<sigma> p"
  by (simp_all add: stream_at_def)

lemma read_opened_eq:
  assumes "stream_at \<sigma> a = Some s" and "connectionNo s \<noteq> - 1"
    and "emscriptenhttpread M (connectionNo s) buffer cap (host \<sigma>) = ((r, b), h2)"
  shows "emscriptenhttp_stream_read M a buffer cap br \<sigma> =
           Some (if sint r < 0 then - 1 else 0, b, if sint r < 0 then br else r,
                 \<sigma>\<lparr>host := h2,
                   trace := trace \<sigma> @ [HostRead (connectionNo s) buffer cap r],
                   git_error := (if sint r < 0 then Some (0, ''request aborted by user'')
                                 else git_error \<sigma>)\<rparr>)"
  using assms
  by (simp add: emscriptenhttp_stream_read_def emscriptenhttp_do_read_def git_error_set_def Let_def)

lemma read_unopened_eq:
  assumes "stream_at \<sigma> a = Some s" and "connectionNo s = - 1"
    and "emscriptenhttpconnect M (UTF8ToString (service_url s)) DEFAULT_BUFSIZE None (host \<sigma>) = (c, h1)"
    and "emscriptenhttpread M c buffer cap h1 = ((r, b), h2)"
  shows "emscriptenhttp_stream_read M a buffer cap br \<sigma> =
           Some (if sint r < 0 then - 1 else 0, b, if sint r < 0 then br else r,
                 (store_stream a (s\<lparr>connectionNo := c\<rparr>) \<sigma>)
                   \<lparr>host := h2,
                    trace := trace \<sigma> @ [Connect (UTF8ToString (service_url s)) DEFAULT_BUFSIZE None c,
                                   HostRead c buffer cap r],
                    git_error := (if sint r < 0 then Some (0, ''request aborted by user'')
                                  else git_error \<sigma>)\<rparr>)"
  using assms
  by (simp add: emscriptenhttp_stream_read_def emscriptenhttp_do_read_def emscriptenhttp_do_get_def
      git_error_set_def store_stream_def Let_def)

text \<open>
  What a read does, in one statement: it opens the connection when the handle is the
  sentinel, calls the read handler, and reports by the sign of the handler's result.
\<close>

lemma stream_read_result:
  assumes "stream_at \<sigma> a = Some s"
  shows "\<exists>rc b n \<sigma>' c r.
           emscriptenhttp_stream_read M a buffer cap br \<sigma> = Some (rc, b, n, \<sigma>') \<and>
           stream_at \<sigma>' a = Some (s\<lparr>connectionNo := c\<rparr>) \<and>
           (connectionNo s \<noteq> - 1 \<longrightarrow> c = connectionNo s) \<and>
           trace \<sigma>' = trace \<sigma> @
             (if connectionNo s = - 1
              then [Connect (UTF8ToString (service_url s)) DEFAULT_BUFSIZE None c] else []) @
             [HostRead c buffer cap r] \<and>
           (if sint r < 0
            then rc = - 1 \<and> n = br \<and> git_error \<sigma>' = Some (0, ''request aborted by user'')
            else rc = 0 \<and> n = r \<and> git_error \<sigma>' = git_error \<sigma>)"
proof (cases "connectionNo s = - 1")
  case True
  obtain c h1 where c:
    "emscriptenhttpconnect M (UTF8ToString (service_url s)) DEFAULT_BUFSIZE None (host \<sigma>) = (c, h1)"
    by (cases "emscriptenhttpconnect M (UTF8ToString (service_url s)) DEFAULT_BUFSIZE None (host \<sigma>)")
  obtain r b h2 where r: "emscriptenhttpread M c buffer cap h1 = ((r, b), h2)"
    by (metis surj_pair)
  let ?\<sigma>' = "(store_stream a (s\<lparr>connectionNo := c\<rparr>) \<sigma>)
                \<lparr>host := h2,
                 trace := trace \<sigma> @ [Connect (UTF8ToString (service_url s)) DEFAULT_BUFSIZE None c,
                                HostRead c buffer cap r],
                 git_error := (if sint r < 0 then Some (0, ''request aborted by user'')
                               else git_error \<sigma>)\<rparr>"
  have "stream_at ?\<sigma>' a = Some (s\<lparr>connectionNo := c\<rparr>)"
    by (simp add: stream_at_def store_stream_def update_conv')
  moreover have "trace ?\<sigma>' = trace \<sigma> @
      [Connect (UTF8ToString (service_url s)) DEFAULT_BUFSIZE None c] @ [HostRead c buffer cap r]"
    by simp
  moreover have "git_error ?\<sigma>' =
      (if sint r < 0 then Some (0, ''request aborted by user'') else git_error \<sigma>)"
    by (simp add: store_stream_def)
  ultimately show ?thesis
    using read_unopened_eq [OF assms True c r, of br] True
    by (cases "sint r < 0") fastforce+
next
  case False
  obtain r b h2 where r: "emscriptenhttpread M (connectionNo s) buffer cap (host \<sigma>) = ((r, b), h2)"
    by (metis surj_pair)
  let ?\<sigma>' = "\<sigma>\<lparr>host := h2,
                 trace := trace \<sigma> @ [HostRead (connectionNo s) buffer cap r],
                 git_error := (if sint r < 0 then Some (0, ''request aborted by user'')
                               else git_error \<sigma>)\<rparr>"
  have "stream_at ?\<sigma>' a = Some (s\<lparr>connectionNo := connectionNo s\<rparr>)"
    using assms by (simp add: stream_at_def)
  moreover have "trace ?\<sigma>' = trace \<sigma> @ [HostRead (connectionNo s) buffer cap r]"
    by simp
  moreover have "git_error ?\<sigma>' =
      (if sint r < 0 then Some (0, ''request aborted by user'') else git_error \<sigma>)"
    by simp
  ultimately show ?thesis
    using read_opened_eq [OF assms False r, of br] False
    by (cases "sint r < 0") fastforce+
qed

lemma write_opened_eq:
  assumes "stream_at \<sigma> a = Some s" and "connectionNo s \<noteq> - 1"
    and "emscriptenhttpwrite M (connectionNo s) buffer len (host \<sigma>) = (v, h2)"
  shows "emscriptenhttp_stream_write_single M a buffer len \<sigma> =
           Some (0, \<sigma>\<lparr>host := h2,
                      trace := trace \<sigma> @ [HostWrite (connectionNo s) buffer len v]\<rparr>)"
  using assms
  by (simp add: emscriptenhttp_stream_write_single_def em_asm_emscriptenhttpwrite_def Let_def)

lemma write_unopened_eq:
  assumes "stream_at \<sigma> a = Some s" and "connectionNo s = - 1"
    and "emscriptenhttpconnect M (UTF8ToString (service_url s)) DEFAULT_BUFSIZE
           (Some (''POST'', [(''Content-Type'',
              if indexOf (UTF8ToString (service_url s)) ''git-upload-pack'' > 0
              then ''application/x-git-upload-pack-request''
              else ''application/x-git-receive-pack-request'')])) (host \<sigma>) = (c, h1)"
    and "emscriptenhttpwrite M c buffer len h1 = (v, h2)"
  shows "emscriptenhttp_stream_write_single M a buffer len \<sigma> =
           Some (0, (store_stream a (s\<lparr>connectionNo := c\<rparr>) \<sigma>)
                   \<lparr>host := h2,
                    trace := trace \<sigma> @
                      [Connect (UTF8ToString (service_url s)) DEFAULT_BUFSIZE
                         (Some (''POST'', [(''Content-Type'',
                            if indexOf (UTF8ToString (service_url s)) ''git-upload-pack'' > 0
                            then ''application/x-git-upload-pack-request''
                            else ''application/x-git-receive-pack-request'')])) c,
                       HostWrite c buffer len v]\<rparr>)"
  using assms
  by (simp add: emscriptenhttp_stream_write_single_def em_asm_emscriptenhttpwrite_def
      emscriptenhttp_do_post_def store_stream_def Let_def)

text \<open>
  What a write does: it opens the connection with a POST when the handle is the
  sentinel, calls the write handler, and returns 0.
\<close>

lemma stream_write_result:
  assumes "stream_at \<sigma> a = Some s"
  shows "\<exists>\<sigma>' c v.
           emscriptenhttp_stream_write_single M a buffer len \<sigma> = Some (0, \<sigma>') \<and>
           stream_at \<sigma>' a = Some (s\<lparr>connectionNo := c\<rparr>) \<and>
           (connectionNo s \<noteq> - 1 \<longrightarrow> c = connectionNo s) \<and>
           trace \<sigma>' = trace \<sigma> @
             (if connectionNo s = - 1
              then [Connect (UTF8ToString (service_url s)) DEFAULT_BUFSIZE
                      (Some (''POST'', [(''Content-Type'',
                         if indexOf (UTF8ToString (service_url s)) ''git-upload-pack'' > 0
                         then ''application/x-git-upload-pack-request''
                         else ''application/x-git-receive-pack-request'')])) c]
              else []) @
             [HostWrite c buffer len v] \<and>
           git_error \<sigma>' = git_error \<sigma>"
proof (cases "connectionNo s = - 1")
  case True
  obtain c h1 where c:
    "emscriptenhttpconnect M (UTF8ToString (service_url s)) DEFAULT_BUFSIZE
           (Some (''POST'', [(''Content-Type'',
              if indexOf (UTF8ToString (service_url s)) ''git-upload-pack'' > 0
              then ''application/x-git-upload-pack-request''
              else ''application/x-git-receive-pack-request'')])) (host \<sigma>) = (c, h1)"
    by (metis surj_pair)
  obtain v h2 where v: "emscriptenhttpwrite M c buffer len h1 = (v, h2)"
    by (metis surj_pair)
  let ?\<sigma>' = "(store_stream a (s\<lparr>connectionNo := c\<rparr>) \<sigma>)
                   \<lparr>host := h2,
                    trace := trace \<sigma> @
                      [Connect (UTF8ToString (service_url s)) DEFAULT_BUFSIZE
                         (Some (''POST'', [(''Content-Type'',
                            if indexOf (UTF8ToString (service_url s)) ''git-upload-pack'' > 0
                            then ''application/x-git-upload-pack-request''
                            else ''application/x-git-receive-pack-request'')])) c,
                       HostWrite c buffer len v]\<rparr>"
  have "stream_at ?\<sigma>' a = Some (s\<lparr>connectionNo := c\<rparr>)"
    by (simp add: stream_at_def store_stream_def update_conv')
  moreover have "git_error ?\<sigma>' = git_error \<sigma>"
    by (simp add: store_stream_def)
  moreover have "trace ?\<sigma>' = trace \<sigma> @
                      [Connect (UTF8ToString (service_url s)) DEFAULT_BUFSIZE
                         (Some (''POST'', [(''Content-Type'',
                            if indexOf (UTF8ToString (service_url s)) ''git-upload-pack'' > 0
                            then ''application/x-git-upload-pack-request''
                            else ''application/x-git-receive-pack-request'')])) c] @
                       [HostWrite c buffer len v]"
    by simp
  ultimately show ?thesis
    using write_unopened_eq [OF assms True c v] True by fastforce
next
  case False
  obtain v h2 where v: "emscriptenhttpwrite M (connectionNo s) buffer len (host \<sigma>) = (v, h2)"
    by (metis surj_pair)
  let ?\<sigma>' = "\<sigma>\<lparr>host := h2,
                 trace := trace \<sigma> @ [HostWrite (connectionNo s) buffer len v]\<rparr>"
  have "stream_at ?\<sigma>' a = Some (s\<lparr>connectionNo := connectionNo s\<rparr>)"
    using assms by (simp add: stream_at_def)
  moreover have "git_error ?\<sigma>' = git_error \<sigma>"
    by simp
  moreover have "trace ?\<sigma>' = trace \<sigma> @ [HostWrite (connectionNo s) buffer len v]"
    by simp
  ultimately show ?thesis
    using write_opened_eq [OF assms False v] False by fastforce
qed

lemma git__free_frame:
  assumes "git__free p \<sigma> = Some \<sigma>'"
  shows "host \<sigma>' = host \<sigma>" and "trace \<sigma>' = trace \<sigma>" and "git_error \<sigma>' = git_error \<sigma>"
    and "q \<noteq> p \<Longrightarrow> map_of (heap \<sigma>') q = map_of (heap \<sigma>) q"
  using assms by (auto simp: git__free_def delete_conv' split: if_splits option.splits)

lemma git_smart_subtransport_http_frame:
  assumes "git_smart_subtransport_http out ow param \<sigma> = Some (rc, out', \<sigma>')"
  shows "host \<sigma>' = host \<sigma>" and "trace \<sigma>' = trace \<sigma>" and "git_error \<sigma>' = git_error \<sigma>"
  using assms
  by (auto simp: git_smart_subtransport_http_def git__calloc_def store_subtransport_def Let_def
      split: option.splits if_splits)

subsection \<open>C2: a negative read result is an abort\<close>

text \<open>
  C2. A read on a stream always returns, and its last host call is the read handler, on
  the caller's buffer and capacity. When the value the handler returned is negative as a
  C \<^verbatim>\<open>int\<close>, the read returns -1, stores the error "request aborted by user" and leaves
  the caller's \<^verbatim>\<open>*bytes_read\<close> as it was; a read fails or stores an error in no other
  case. No other function of the file stores an error: a write and an action return 0
  and leave the stored error alone, and so do \<open>emscriptenhttp_stream_free\<close>,
  \<open>emscriptenhttp_close\<close>, \<open>emscriptenhttp_free\<close> and \<open>git_smart_subtransport_http\<close>.
\<close>

theorem emscriptenhttp_stream_read_abort:
  assumes "stream_at \<sigma> stream = Some s"
  shows "(\<exists>rc b n \<sigma>' c r.
           emscriptenhttp_stream_read M stream buffer buf_size bytes_read \<sigma> = Some (rc, b, n, \<sigma>') \<and>
           last (trace \<sigma>') = HostRead c buffer buf_size r \<and>
           (sint r < 0 \<longrightarrow>
              rc = - 1 \<and> n = bytes_read \<and> git_error \<sigma>' = Some (0, ''request aborted by user'')) \<and>
           (rc \<noteq> 0 \<or> git_error \<sigma>' \<noteq> git_error \<sigma> \<longrightarrow> sint r < 0)) \<and>
         (\<forall>len rc \<sigma>'. emscriptenhttp_stream_write_single M stream buffer len \<sigma> = Some (rc, \<sigma>')
            \<longrightarrow> rc = 0 \<and> git_error \<sigma>' = git_error \<sigma>) \<and>
         (\<forall>out t url action rc p \<sigma>'. emscriptenhttp_action out t url action \<sigma> = Some (rc, p, \<sigma>')
            \<longrightarrow> rc = 0 \<and> git_error \<sigma>' = git_error \<sigma>) \<and>
         (\<forall>\<sigma>'. emscriptenhttp_stream_free stream \<sigma> = Some \<sigma>' \<longrightarrow> git_error \<sigma>' = git_error \<sigma>) \<and>
         (\<forall>t. emscriptenhttp_close t \<sigma> = (0, \<sigma>)) \<and>
         (\<forall>t \<sigma>'. emscriptenhttp_free t \<sigma> = Some \<sigma>' \<longrightarrow> git_error \<sigma>' = git_error \<sigma>) \<and>
         (\<forall>out ow (param :: unit) rc out' \<sigma>'.
            git_smart_subtransport_http out ow param \<sigma> = Some (rc, out', \<sigma>')
            \<longrightarrow> git_error \<sigma>' = git_error \<sigma>)"
proof -
  obtain rc b n \<sigma>' c r where rd:
    "emscriptenhttp_stream_read M stream buffer buf_size bytes_read \<sigma> = Some (rc, b, n, \<sigma>')"
    "trace \<sigma>' = trace \<sigma> @
             (if connectionNo s = - 1
              then [Connect (UTF8ToString (service_url s)) DEFAULT_BUFSIZE None c] else []) @
             [HostRead c buffer buf_size r]"
    "if sint r < 0
     then rc = - 1 \<and> n = bytes_read \<and> git_error \<sigma>' = Some (0, ''request aborted by user'')
     else rc = 0 \<and> n = r \<and> git_error \<sigma>' = git_error \<sigma>"
    using stream_read_result [OF assms, of M buffer buf_size bytes_read] by blast
  have "last (trace \<sigma>') = HostRead c buffer buf_size r"
    using rd(2) by simp
  with rd(1,3) have 1: "\<exists>rc b n \<sigma>' c r.
           emscriptenhttp_stream_read M stream buffer buf_size bytes_read \<sigma> = Some (rc, b, n, \<sigma>') \<and>
           last (trace \<sigma>') = HostRead c buffer buf_size r \<and>
           (sint r < 0 \<longrightarrow>
              rc = - 1 \<and> n = bytes_read \<and> git_error \<sigma>' = Some (0, ''request aborted by user'')) \<and>
           (rc \<noteq> 0 \<or> git_error \<sigma>' \<noteq> git_error \<sigma> \<longrightarrow> sint r < 0)"
    by (cases "sint r < 0") fastforce+
  have 2: "\<forall>len rc \<sigma>'. emscriptenhttp_stream_write_single M stream buffer len \<sigma> = Some (rc, \<sigma>')
            \<longrightarrow> rc = 0 \<and> git_error \<sigma>' = git_error \<sigma>"
  proof (intro allI impI)
    fix len rc \<sigma>'
    assume w: "emscriptenhttp_stream_write_single M stream buffer len \<sigma> = Some (rc, \<sigma>')"
    from stream_write_result [OF assms, of M buffer len] obtain \<sigma>'' where
      "emscriptenhttp_stream_write_single M stream buffer len \<sigma> = Some (0, \<sigma>'')"
      "git_error \<sigma>'' = git_error \<sigma>"
      by blast
    with w show "rc = 0 \<and> git_error \<sigma>' = git_error \<sigma>" by simp
  qed
  have 3: "\<forall>out t url action rc p \<sigma>'. emscriptenhttp_action out t url action \<sigma> = Some (rc, p, \<sigma>')
            \<longrightarrow> rc = 0 \<and> git_error \<sigma>' = git_error \<sigma>"
    by (auto simp: emscriptenhttp_action_eq)
  have 4: "\<forall>\<sigma>'. emscriptenhttp_stream_free stream \<sigma> = Some \<sigma>' \<longrightarrow> git_error \<sigma>' = git_error \<sigma>"
    by (simp add: emscriptenhttp_stream_free_def git__free_frame)
  have 5: "\<forall>t. emscriptenhttp_close t \<sigma> = (0, \<sigma>)"
    by (simp add: emscriptenhttp_close_def)
  have 6: "\<forall>t \<sigma>'. emscriptenhttp_free t \<sigma> = Some \<sigma>' \<longrightarrow> git_error \<sigma>' = git_error \<sigma>"
    by (simp add: emscriptenhttp_free_def emscriptenhttp_close_def git__free_frame)
  have 7: "\<forall>out ow (param :: unit) rc out' \<sigma>'.
            git_smart_subtransport_http out ow param \<sigma> = Some (rc, out', \<sigma>')
            \<longrightarrow> git_error \<sigma>' = git_error \<sigma>"
    by (intro allI impI) (rule git_smart_subtransport_http_frame(3))
  from 1 2 3 4 5 6 7 show ?thesis by blast
qed

theorem emscriptenhttp_stream_read_abort_witness:
  "stream_at (world_with (Stream (stream_for (Some ''u'') (- 1)))) 1 =
     Some (stream_for (Some ''u'') (- 1)) \<and>
   emscriptenhttp_stream_read aborting_host 1 [0, 0, 0, 0] 4 77
       (world_with (Stream (stream_for (Some ''u'') (- 1)))) =
     Some (- 1, [0, 0, 0, 0], 77,
           \<lparr>heap = [(1, Stream (stream_for (Some ''u'') 0))], host = 1,
            trace = [Connect ''u'' 65536 None 0, HostRead 0 [0, 0, 0, 0] 4 (- 1)],
            git_error = Some (0, ''request aborted by user'')\<rparr>)"
proof -
  have h: "stream_at (world_with (Stream (stream_for (Some ''u'') (- 1)))) 1 =
             Some (stream_for (Some ''u'') (- 1))"
    by (simp add: stream_at_def world_with_def)
  have e: "emscriptenhttp_stream_read aborting_host 1 [0, 0, 0, 0] 4 77
       (world_with (Stream (stream_for (Some ''u'') (- 1)))) =
     Some (- 1, [0, 0, 0, 0], 77,
           \<lparr>heap = [(1, Stream (stream_for (Some ''u'') 0))], host = 1,
            trace = [Connect ''u'' 65536 None 0, HostRead 0 [0, 0, 0, 0] 4 (- 1)],
            git_error = Some (0, ''request aborted by user'')\<rparr>)"
    by (simp add: emscriptenhttp_stream_read_def emscriptenhttp_do_get_def
        emscriptenhttp_do_read_def git_error_set_def store_stream_def stream_at_def
        world_with_def stream_for_def aborting_host_def DEFAULT_BUFSIZE_def Let_def)
  show ?thesis
    using h e emscriptenhttp_stream_read_abort [OF h, of aborting_host "[0, 0, 0, 0]" 4 77]
    by blast
qed

subsection \<open>C5: the count a read reports\<close>

text \<open>
  C5, as stated, fails: the file puts no bound on the count. With a host whose read
  handler returns 10 for a capacity of 4, the read returns 0 and reports 10 bytes.
\<close>

theorem emscriptenhttp_stream_read_count_counterexample:
  "emscriptenhttp_stream_read overlong_host 1 [0, 0, 0, 0] 4 0
       (world_with (Stream (stream_for (Some ''u'') (- 1)))) =
     Some (0, [0, 0, 0, 0], 10,
           \<lparr>heap = [(1, Stream (stream_for (Some ''u'') 0))], host = 1,
            trace = [Connect ''u'' 65536 None 0, HostRead 0 [0, 0, 0, 0] 4 10],
            git_error = None\<rparr>) \<and>
   \<not> (10 :: size_t) \<le> 4"
  by (simp add: emscriptenhttp_stream_read_def emscriptenhttp_do_get_def
        emscriptenhttp_do_read_def git_error_set_def store_stream_def stream_at_def
        world_with_def stream_for_def overlong_host_def DEFAULT_BUFSIZE_def Let_def)

text \<open>
  C5, amended. A read asks the host for up to \<open>buf_size\<close> bytes into the caller's
  buffer. When the value the handler returned is not negative as a C \<^verbatim>\<open>int\<close>, the read
  returns 0, stores no error and reports exactly that value in \<^verbatim>\<open>*bytes_read\<close>: 0 when
  the host returned 0 (the end of the data), and a count within the capacity whenever the
  host's value is within it.
\<close>

theorem emscriptenhttp_stream_read_count:
  assumes "stream_at \<sigma> stream = Some s"
  shows "\<exists>rc b n \<sigma>' c r.
           emscriptenhttp_stream_read M stream buffer buf_size bytes_read \<sigma> = Some (rc, b, n, \<sigma>') \<and>
           last (trace \<sigma>') = HostRead c buffer buf_size r \<and>
           (0 \<le> sint r \<longrightarrow> rc = 0 \<and> n = r \<and> git_error \<sigma>' = git_error \<sigma>) \<and>
           (r = 0 \<longrightarrow> rc = 0 \<and> n = 0) \<and>
           (0 \<le> sint r \<and> r \<le> buf_size \<longrightarrow> n \<le> buf_size)"
proof -
  obtain rc b n \<sigma>' c r where rd:
    "emscriptenhttp_stream_read M stream buffer buf_size bytes_read \<sigma> = Some (rc, b, n, \<sigma>')"
    "trace \<sigma>' = trace \<sigma> @
             (if connectionNo s = - 1
              then [Connect (UTF8ToString (service_url s)) DEFAULT_BUFSIZE None c] else []) @
             [HostRead c buffer buf_size r]"
    "if sint r < 0
     then rc = - 1 \<and> n = bytes_read \<and> git_error \<sigma>' = Some (0, ''request aborted by user'')
     else rc = 0 \<and> n = r \<and> git_error \<sigma>' = git_error \<sigma>"
    using stream_read_result [OF assms, of M buffer buf_size bytes_read] by blast
  have l: "last (trace \<sigma>') = HostRead c buffer buf_size r"
    using rd(2) by simp
  have pos: "0 \<le> sint r \<longrightarrow> rc = 0 \<and> n = r \<and> git_error \<sigma>' = git_error \<sigma>"
    using rd(3) by (cases "sint r < 0") simp_all
  have zero: "r = 0 \<longrightarrow> rc = 0 \<and> n = 0"
    using pos by simp
  have le: "0 \<le> sint r \<and> r \<le> buf_size \<longrightarrow> n \<le> buf_size"
    using pos by simp
  from rd(1) l pos zero le show ?thesis by blast
qed

theorem emscriptenhttp_stream_read_count_witness:
  "stream_at (world_with (Stream (stream_for (Some ''u'') 0))) 1 =
     Some (stream_for (Some ''u'') 0) \<and>
   emscriptenhttp_stream_read counting_host 1 [0, 0, 0, 0] 4 0
       (world_with (Stream (stream_for (Some ''u'') 0))) =
     Some (0, [0, 0, 0, 0], 3,
           \<lparr>heap = [(1, Stream (stream_for (Some ''u'') 0))], host = 0,
            trace = [HostRead 0 [0, 0, 0, 0] 4 3], git_error = None\<rparr>) \<and>
   (0 :: int) \<le> sint (3 :: size_t) \<and> (3 :: size_t) \<le> 4"
proof -
  have h: "stream_at (world_with (Stream (stream_for (Some ''u'') 0))) 1 =
             Some (stream_for (Some ''u'') 0)"
    by (simp add: stream_at_def world_with_def)
  have e: "emscriptenhttp_stream_read counting_host 1 [0, 0, 0, 0] 4 0
       (world_with (Stream (stream_for (Some ''u'') 0))) =
     Some (0, [0, 0, 0, 0], 3,
           \<lparr>heap = [(1, Stream (stream_for (Some ''u'') 0))], host = 0,
            trace = [HostRead 0 [0, 0, 0, 0] 4 3], git_error = None\<rparr>)"
    by (simp add: emscriptenhttp_stream_read_def emscriptenhttp_do_get_def
        emscriptenhttp_do_read_def git_error_set_def store_stream_def stream_at_def
        world_with_def stream_for_def counting_host_def DEFAULT_BUFSIZE_def Let_def)
  have n: "(0 :: int) \<le> sint (3 :: size_t) \<and> (3 :: size_t) \<le> 4"
    by simp
  show ?thesis
    using h e n emscriptenhttp_stream_read_count [OF h, of counting_host "[0, 0, 0, 0]" 4 0]
    by blast
qed

subsection \<open>C6: a write always succeeds\<close>

text \<open>
  C6. A write on a stream returns 0, whatever the buffer, the length and the host: its
  last host call is the write handler on the caller's buffer and length, the value \<open>v\<close>
  that the handler returned goes nowhere, and no error is stored.
\<close>

theorem emscriptenhttp_stream_write_single_ok:
  assumes "stream_at \<sigma> stream = Some s"
  shows "\<exists>\<sigma>' c v.
           emscriptenhttp_stream_write_single M stream buffer len \<sigma> = Some (0, \<sigma>') \<and>
           last (trace \<sigma>') = HostWrite c buffer len v \<and>
           git_error \<sigma>' = git_error \<sigma>"
proof -
  obtain \<sigma>' c v where w:
    "emscriptenhttp_stream_write_single M stream buffer len \<sigma> = Some (0, \<sigma>')"
    "trace \<sigma>' = trace \<sigma> @
             (if connectionNo s = - 1
              then [Connect (UTF8ToString (service_url s)) DEFAULT_BUFSIZE
                      (Some (''POST'', [(''Content-Type'',
                         if indexOf (UTF8ToString (service_url s)) ''git-upload-pack'' > 0
                         then ''application/x-git-upload-pack-request''
                         else ''application/x-git-receive-pack-request'')])) c]
              else []) @
             [HostWrite c buffer len v]"
    "git_error \<sigma>' = git_error \<sigma>"
    using stream_write_result [OF assms, of M buffer len] by blast
  have "last (trace \<sigma>') = HostWrite c buffer len v"
    using w(2) by simp
  with w(1,3) show ?thesis by blast
qed

theorem emscriptenhttp_stream_write_single_ok_witness:
  "stream_at (world_with (Stream (stream_for (Some ''u'') 0))) 1 =
     Some (stream_for (Some ''u'') 0) \<and>
   emscriptenhttp_stream_write_single refusing_host 1 [1, 2] 2
       (world_with (Stream (stream_for (Some ''u'') 0))) =
     Some (0, \<lparr>heap = [(1, Stream (stream_for (Some ''u'') 0))], host = 0,
            trace = [HostWrite 0 [1, 2] 2 (- 1)], git_error = None\<rparr>)"
proof -
  have h: "stream_at (world_with (Stream (stream_for (Some ''u'') 0))) 1 =
             Some (stream_for (Some ''u'') 0)"
    by (simp add: stream_at_def world_with_def)
  have e: "emscriptenhttp_stream_write_single refusing_host 1 [1, 2] 2
       (world_with (Stream (stream_for (Some ''u'') 0))) =
     Some (0, \<lparr>heap = [(1, Stream (stream_for (Some ''u'') 0))], host = 0,
            trace = [HostWrite 0 [1, 2] 2 (- 1)], git_error = None\<rparr>)"
    by (simp add: emscriptenhttp_stream_write_single_def emscriptenhttp_do_post_def
        em_asm_emscriptenhttpwrite_def store_stream_def stream_at_def
        world_with_def stream_for_def refusing_host_def DEFAULT_BUFSIZE_def Let_def)
  show ?thesis
    using h e emscriptenhttp_stream_write_single_ok [OF h, of refusing_host "[1, 2]" 2]
    by blast
qed

subsection \<open>The position test of the POST\<close>






lemma new_calls_append: "trace \<sigma>' = trace \<sigma> @ new \<Longrightarrow> new_calls \<sigma> \<sigma>' = new"
  by (simp add: new_calls_def)


subsection \<open>C4: the Content-Type of the POST\<close>




text \<open>
  The test of the code is \<^verbatim>\<open>indexOf(...) > 0\<close>, so an occurrence at position 0 does not
  count. It differs from a mention only for a service URL that begins with
  \<^verbatim>\<open>git-upload-pack\<close>, which no URL with a scheme does: for the base URL
  \<^verbatim>\<open>git-upload-pack\<close> the first write would open with the receive-pack Content-Type.
\<close>

lemma content_type_at_position_zero:
  "map_option trace
     (action_then_calls counting_host 0 ''git-upload-pack'' GIT_SERVICE_UPLOADPACK
        [Write_call [1, 2] 2] empty_world) =
   Some [Connect ''git-upload-pack/git-upload-pack'' 65536
           (Some (''POST'', [(''Content-Type'', ''application/x-git-receive-pack-request'')])) 0,
         HostWrite 0 [1, 2] 2 0]"
  by (simp add: action_then_calls_def emscriptenhttp_action_def emscriptenhttp_stream_alloc_def
      git__calloc_def NULL_def zeroed_stream_def GIT_STR_INIT_def git_str_printf_def
      git_str_cstr_def upload_pack_service_url_def
      emscriptenhttp_stream_write_single_def emscriptenhttp_do_post_def
      em_asm_emscriptenhttpwrite_def store_stream_def stream_at_def
      counting_host_def empty_world_def DEFAULT_BUFSIZE_def Let_def)

subsection \<open>Sequences of calls\<close>

lemma on_handle_not_open: "on_handle c e \<Longrightarrow> \<not> is_open e \<and> \<not> is_get e \<and> \<not> is_post e"
  by (cases e) simp_all

lemma list_all_on_handle:
  assumes "list_all (on_handle c) new"
  shows "opens new = 0" and "\<not> list_ex is_get new" and "\<not> list_ex is_post new"
  using assms on_handle_not_open
  by (auto simp: opens_def list_all_iff list_ex_iff filter_empty_conv)

lemma do_call_opened:
  assumes "stream_at \<sigma> a = Some s" and "connectionNo s \<noteq> - 1"
  shows "\<exists>\<sigma>' e. do_call M a call \<sigma> = Some \<sigma>' \<and> stream_at \<sigma>' a = Some s \<and>
                trace \<sigma>' = trace \<sigma> @ [e] \<and> on_handle (connectionNo s) e"
proof (cases call)
  case (Read_call buffer cap)
  from stream_read_result [OF assms(1), of M buffer cap 0] assms(2)
  obtain rc b n \<sigma>' r where
    "emscriptenhttp_stream_read M a buffer cap 0 \<sigma> = Some (rc, b, n, \<sigma>')"
    "stream_at \<sigma>' a = Some (s\<lparr>connectionNo := connectionNo s\<rparr>)"
    "trace \<sigma>' = trace \<sigma> @ [HostRead (connectionNo s) buffer cap r]"
    by auto
  then show ?thesis using Read_call by simp
next
  case (Write_call buffer len)
  from stream_write_result [OF assms(1), of M buffer len] assms(2)
  obtain \<sigma>' v where
    "emscriptenhttp_stream_write_single M a buffer len \<sigma> = Some (0, \<sigma>')"
    "stream_at \<sigma>' a = Some (s\<lparr>connectionNo := connectionNo s\<rparr>)"
    "trace \<sigma>' = trace \<sigma> @ [HostWrite (connectionNo s) buffer len v]"
    by auto
  then show ?thesis using Write_call by simp
qed

lemma do_call_unopened:
  assumes "stream_at \<sigma> a = Some s" and "connectionNo s = - 1"
  shows "\<exists>\<sigma>' c e e'. do_call M a call \<sigma> = Some \<sigma>' \<and>
                stream_at \<sigma>' a = Some (s\<lparr>connectionNo := c\<rparr>) \<and>
                trace \<sigma>' = trace \<sigma> @ [e, e'] \<and> is_open e \<and> on_handle c e' \<and>
                (case call of Read_call _ _ \<Rightarrow> is_get e | Write_call _ _ \<Rightarrow> is_post e)"
proof (cases call)
  case (Read_call buffer cap)
  from stream_read_result [OF assms(1), of M buffer cap 0] assms(2)
  obtain rc b n \<sigma>' c r where
    "emscriptenhttp_stream_read M a buffer cap 0 \<sigma> = Some (rc, b, n, \<sigma>')"
    "stream_at \<sigma>' a = Some (s\<lparr>connectionNo := c\<rparr>)"
    "trace \<sigma>' = trace \<sigma> @ [Connect (UTF8ToString (service_url s)) DEFAULT_BUFSIZE None c,
                            HostRead c buffer cap r]"
    by auto
  then show ?thesis using Read_call by simp
next
  case (Write_call buffer len)
  from stream_write_result [OF assms(1), of M buffer len] assms(2)
  obtain \<sigma>' c v opts where
    "emscriptenhttp_stream_write_single M a buffer len \<sigma> = Some (0, \<sigma>')"
    "stream_at \<sigma>' a = Some (s\<lparr>connectionNo := c\<rparr>)"
    "trace \<sigma>' = trace \<sigma> @ [Connect (UTF8ToString (service_url s)) DEFAULT_BUFSIZE
                              (Some (''POST'', opts)) c,
                            HostWrite c buffer len v]"
    by auto
  then show ?thesis using Write_call by simp
qed

lemma do_calls_opened:
  assumes "stream_at \<sigma> a = Some s" and "connectionNo s \<noteq> - 1"
  shows "\<exists>\<sigma>' new. do_calls M a calls \<sigma> = Some \<sigma>' \<and> stream_at \<sigma>' a = Some s \<and>
                trace \<sigma>' = trace \<sigma> @ new \<and> list_all (on_handle (connectionNo s)) new \<and>
                length new = length calls"
  using assms(1)
proof (induction calls arbitrary: \<sigma>)
  case Nil
  then show ?case by simp
next
  case (Cons call calls)
  from do_call_opened [OF Cons.prems assms(2), of M call] obtain \<sigma>1 e where 1:
    "do_call M a call \<sigma> = Some \<sigma>1" "stream_at \<sigma>1 a = Some s"
    "trace \<sigma>1 = trace \<sigma> @ [e]" "on_handle (connectionNo s) e"
    by blast
  from Cons.IH [OF 1(2)] obtain \<sigma>' new where 2:
    "do_calls M a calls \<sigma>1 = Some \<sigma>'" "stream_at \<sigma>' a = Some s"
    "trace \<sigma>' = trace \<sigma>1 @ new" "list_all (on_handle (connectionNo s)) new"
    "length new = length calls"
    by blast
  have "do_calls M a (call # calls) \<sigma> = Some \<sigma>'"
    using 1(1) 2(1) by simp
  moreover have "trace \<sigma>' = trace \<sigma> @ (e # new)"
    using 1(3) 2(3) by simp
  moreover have "list_all (on_handle (connectionNo s)) (e # new)"
    using 1(4) 2(4) by simp
  moreover have "length (e # new) = length (call # calls)"
    using 2(5) by simp
  ultimately show ?case using 2(2) by blast
qed

lemma after_first_call:
  assumes "stream_at \<sigma> stream = Some s" and "connectionNo s = - 1"
    and "do_call M stream call \<sigma> = Some \<sigma>1" and "handle_at \<sigma>1 stream = Some c"
  shows "\<exists>e e'. stream_at \<sigma>1 stream = Some (s\<lparr>connectionNo := c\<rparr>) \<and>
                trace \<sigma>1 = trace \<sigma> @ [e, e'] \<and> is_open e \<and> on_handle c e' \<and>
                (case call of Read_call _ _ \<Rightarrow> is_get e | Write_call _ _ \<Rightarrow> is_post e)"
proof -
  from do_call_unopened [OF assms(1,2), of M call] assms(3) obtain c' e e' where 1:
    "stream_at \<sigma>1 stream = Some (s\<lparr>connectionNo := c'\<rparr>)"
    "trace \<sigma>1 = trace \<sigma> @ [e, e']" "is_open e" "on_handle c' e'"
    "case call of Read_call _ _ \<Rightarrow> is_get e | Write_call _ _ \<Rightarrow> is_post e"
    by auto
  from 1(1) assms(4) have "c' = c"
    by (simp add: handle_at_def)
  with 1 show ?thesis by blast
qed

lemma first_call_opens:
  assumes "stream_at \<sigma> stream = Some s" and "connectionNo s = - 1"
  shows "\<exists>\<sigma>1 c opts e'.
           do_call M stream call \<sigma> = Some \<sigma>1 \<and>
           stream_at \<sigma>1 stream = Some (s\<lparr>connectionNo := c\<rparr>) \<and>
           trace \<sigma>1 = trace \<sigma> @
             [Connect (UTF8ToString (service_url s)) DEFAULT_BUFSIZE opts c, e'] \<and>
           on_handle c e' \<and>
           (case call of Read_call _ _ \<Rightarrow> opts = None
                       | Write_call _ _ \<Rightarrow> (\<exists>hs. opts = Some (''POST'', hs)))"
proof (cases call)
  case (Read_call buffer cap)
  from stream_read_result [OF assms(1), of M buffer cap 0] assms(2)
  obtain rc b n \<sigma>' c r where
    "emscriptenhttp_stream_read M stream buffer cap 0 \<sigma> = Some (rc, b, n, \<sigma>')"
    "stream_at \<sigma>' stream = Some (s\<lparr>connectionNo := c\<rparr>)"
    "trace \<sigma>' = trace \<sigma> @ [Connect (UTF8ToString (service_url s)) DEFAULT_BUFSIZE None c,
                            HostRead c buffer cap r]"
    by auto
  then show ?thesis using Read_call by simp
next
  case (Write_call buffer len)
  from stream_write_result [OF assms(1), of M buffer len] assms(2)
  obtain \<sigma>' c v hs where
    "emscriptenhttp_stream_write_single M stream buffer len \<sigma> = Some (0, \<sigma>')"
    "stream_at \<sigma>' stream = Some (s\<lparr>connectionNo := c\<rparr>)"
    "trace \<sigma>' = trace \<sigma> @ [Connect (UTF8ToString (service_url s)) DEFAULT_BUFSIZE
                              (Some (''POST'', hs)) c,
                            HostWrite c buffer len v]"
    by auto
  then show ?thesis using Write_call by simp
qed

subsection \<open>C3: the connection is opened once\<close>

text \<open>
  C3, as stated, fails: the handle the host returns is stored as it is, and a stream
  whose handle is -1 counts as unopened. With a host whose connect handler returns -1,
  two reads on a new stream open twice.
\<close>

theorem stream_opened_once_counterexample:
  "map_option (opens \<circ> trace)
     (action_then_calls refusing_host 0 ''https://example.org/repo.git'' GIT_SERVICE_UPLOADPACK_LS
        [Read_call [0, 0] 2, Read_call [0, 0] 2] empty_world) = Some 2"
  by (simp add: action_then_calls_def emscriptenhttp_action_def emscriptenhttp_stream_alloc_def
      git__calloc_def NULL_def zeroed_stream_def GIT_STR_INIT_def git_str_printf_def
      git_str_cstr_def upload_pack_ls_service_url_def
      emscriptenhttp_stream_read_def emscriptenhttp_do_get_def emscriptenhttp_do_read_def
      git_error_set_def store_stream_def stream_at_def opens_def
      refusing_host_def empty_world_def DEFAULT_BUFSIZE_def Let_def)

text \<open>
  C3, amended. On a stream whose handle is the sentinel, the first read or write always
  opens the connection, whatever the host returns: its first host call is the connect
  handler on the service URL, with GET for a read and POST for a write, it is the only
  open of that call, and the handle \<open>c\<close> the handler returned is stored in the stream.
  Provided \<open>c\<close> is not the sentinel -1, that open is the only one over the whole
  sequence of calls, however long: it is the first host call of the sequence, no call
  after the first opens again, and the handle stays \<open>c\<close>.
\<close>

theorem stream_opened_once:
  assumes "stream_at \<sigma> stream = Some s" and "connectionNo s = - 1"
  shows "\<exists>\<sigma>1 c e.
           do_call M stream call \<sigma> = Some \<sigma>1 \<and> handle_at \<sigma>1 stream = Some c \<and>
           hd (new_calls \<sigma> \<sigma>1) = e \<and>
           (\<exists>opts. e = Connect (UTF8ToString (service_url s)) DEFAULT_BUFSIZE opts c) \<and>
           (case call of Read_call _ _ \<Rightarrow> is_get e | Write_call _ _ \<Rightarrow> is_post e) \<and>
           opens (new_calls \<sigma> \<sigma>1) = 1 \<and>
           (c \<noteq> - 1 \<longrightarrow>
              (\<exists>\<sigma>'. do_calls M stream (call # calls) \<sigma> = Some \<sigma>' \<and>
                    opens (new_calls \<sigma> \<sigma>') = 1 \<and> hd (new_calls \<sigma> \<sigma>') = e \<and>
                    opens (new_calls \<sigma>1 \<sigma>') = 0 \<and> handle_at \<sigma>' stream = Some c))"
proof -
  from first_call_opens [OF assms, of M call] obtain \<sigma>1 c opts e' where 1:
    "do_call M stream call \<sigma> = Some \<sigma>1"
    "stream_at \<sigma>1 stream = Some (s\<lparr>connectionNo := c\<rparr>)"
    "trace \<sigma>1 = trace \<sigma> @
       [Connect (UTF8ToString (service_url s)) DEFAULT_BUFSIZE opts c, e']"
    "on_handle c e'"
    "case call of Read_call _ _ \<Rightarrow> opts = None
                | Write_call _ _ \<Rightarrow> (\<exists>hs. opts = Some (''POST'', hs))"
    by blast
  let ?e = "Connect (UTF8ToString (service_url s)) DEFAULT_BUFSIZE opts c"
  have h: "handle_at \<sigma>1 stream = Some c"
    using 1(2) by (simp add: handle_at_def)
  have n0: "new_calls \<sigma> \<sigma>1 = [?e, e']"
    using 1(3) by (rule new_calls_append)
  have ne': "\<not> is_open e'"
    using 1(4) on_handle_not_open by blast
  have o1: "opens (new_calls \<sigma> \<sigma>1) = 1"
    using n0 ne' by (simp add: opens_def)
  have m: "case call of Read_call _ _ \<Rightarrow> is_get ?e | Write_call _ _ \<Rightarrow> is_post ?e"
    using 1(5) by (cases call) auto
  have later: "c \<noteq> - 1 \<longrightarrow>
              (\<exists>\<sigma>'. do_calls M stream (call # calls) \<sigma> = Some \<sigma>' \<and>
                    opens (new_calls \<sigma> \<sigma>') = 1 \<and> hd (new_calls \<sigma> \<sigma>') = ?e \<and>
                    opens (new_calls \<sigma>1 \<sigma>') = 0 \<and> handle_at \<sigma>' stream = Some c)"
  proof
    assume "c \<noteq> - 1"
    then have "connectionNo (s\<lparr>connectionNo := c\<rparr>) \<noteq> - 1"
      by simp
    from do_calls_opened [OF 1(2) this, of M calls] obtain \<sigma>' new where 2:
      "do_calls M stream calls \<sigma>1 = Some \<sigma>'"
      "stream_at \<sigma>' stream = Some (s\<lparr>connectionNo := c\<rparr>)"
      "trace \<sigma>' = trace \<sigma>1 @ new" "list_all (on_handle c) new"
      by auto
    have a: "do_calls M stream (call # calls) \<sigma> = Some \<sigma>'"
      using 1(1) 2(1) by simp
    have n1: "new_calls \<sigma>1 \<sigma>' = new"
      using 2(3) by (rule new_calls_append)
    have "trace \<sigma>' = trace \<sigma> @ (?e # e' # new)"
      using 1(3) 2(3) by simp
    then have n: "new_calls \<sigma> \<sigma>' = ?e # e' # new"
      by (rule new_calls_append)
    have o: "opens new = 0"
      using 2(4) by (rule list_all_on_handle)
    with ne' have "opens (?e # e' # new) = 1"
      by (simp add: opens_def)
    with a n n1 o 2(2)
    show "\<exists>\<sigma>'. do_calls M stream (call # calls) \<sigma> = Some \<sigma>' \<and>
                    opens (new_calls \<sigma> \<sigma>') = 1 \<and> hd (new_calls \<sigma> \<sigma>') = ?e \<and>
                    opens (new_calls \<sigma>1 \<sigma>') = 0 \<and> handle_at \<sigma>' stream = Some c"
      by (simp add: handle_at_def)
  qed
  have hd0: "hd (new_calls \<sigma> \<sigma>1) = ?e"
    using n0 by simp
  from 1(1) h hd0 m o1 later show ?thesis
    by blast
qed

theorem stream_opened_once_witness:
  "stream_at (world_with (Stream (stream_for (Some ''u'') (- 1)))) 1 =
     Some (stream_for (Some ''u'') (- 1)) \<and>
   connectionNo (stream_for (Some ''u'') (- 1)) = - 1 \<and>
   do_call counting_host 1 (Read_call [0, 0] 2) (world_with (Stream (stream_for (Some ''u'') (- 1)))) =
     Some \<lparr>heap = [(1, Stream (stream_for (Some ''u'') 0))], host = 1,
           trace = [Connect ''u'' 65536 None 0, HostRead 0 [0, 0] 2 3], git_error = None\<rparr> \<and>
   handle_at \<lparr>heap = [(1, Stream (stream_for (Some ''u'') 0))], host = 1 :: nat,
           trace = [Connect ''u'' 65536 None 0, HostRead 0 [0, 0] 2 3], git_error = None\<rparr> 1 =
     Some 0 \<and>
   (0 :: c_int) \<noteq> - 1 \<and>
   map_option (opens \<circ> trace)
     (do_calls counting_host 1 [Read_call [0, 0] 2, Write_call [1, 2] 2, Read_call [0, 0] 2]
        (world_with (Stream (stream_for (Some ''u'') (- 1))))) = Some 1"
proof -
  let ?w = "world_with (Stream (stream_for (Some ''u'') (- 1)))"
  let ?w1 = "\<lparr>heap = [(1, Stream (stream_for (Some ''u'') 0))], host = 1 :: nat,
           trace = [Connect ''u'' 65536 None 0, HostRead 0 [0, 0] 2 3], git_error = None\<rparr>"
  have h1: "stream_at ?w 1 = Some (stream_for (Some ''u'') (- 1))"
    by (simp add: stream_at_def world_with_def)
  have h2: "connectionNo (stream_for (Some ''u'') (- 1)) = - 1"
    by (simp add: stream_for_def)
  have h3: "do_call counting_host 1 (Read_call [0, 0] 2) ?w = Some ?w1"
    by (simp add: emscriptenhttp_stream_read_def emscriptenhttp_do_get_def
        emscriptenhttp_do_read_def git_error_set_def store_stream_def stream_at_def
        world_with_def stream_for_def counting_host_def DEFAULT_BUFSIZE_def Let_def)
  have h4: "handle_at ?w1 1 = Some 0"
    by (simp add: handle_at_def stream_at_def stream_for_def)
  have h5: "(0 :: c_int) \<noteq> - 1"
    by simp
  have e: "map_option (opens \<circ> trace)
     (do_calls counting_host 1 [Read_call [0, 0] 2, Write_call [1, 2] 2, Read_call [0, 0] 2] ?w) =
     Some 1"
    by (simp add: emscriptenhttp_stream_read_def emscriptenhttp_do_get_def
        emscriptenhttp_do_read_def emscriptenhttp_stream_write_single_def
        emscriptenhttp_do_post_def em_asm_emscriptenhttpwrite_def
        git_error_set_def store_stream_def stream_at_def opens_def
        world_with_def stream_for_def counting_host_def DEFAULT_BUFSIZE_def Let_def)
  show ?thesis
    using h1 h2 h3 h4 h5 e
      stream_opened_once [OF h1 h2, of counting_host "Read_call [0, 0] 2"
        "[Write_call [1, 2] 2, Read_call [0, 0] 2]"]
    by blast
qed

subsection \<open>C9: later calls reuse the handle\<close>

text \<open>
  C9, as stated, fails for the same reason as C3: with a host whose connect handler
  returns -1, a read opens with GET and the write after it opens again, with POST.
\<close>

theorem stream_handle_reused_counterexample:
  "map_option trace
     (action_then_calls refusing_host 0 ''https://example.org/repo.git'' GIT_SERVICE_UPLOADPACK
        [Read_call [0, 0] 2, Write_call [1, 2] 2] empty_world) =
   Some [Connect ''https://example.org/repo.git/git-upload-pack'' 65536 None (- 1),
         HostRead (- 1) [0, 0] 2 0,
         Connect ''https://example.org/repo.git/git-upload-pack'' 65536
           (Some (''POST'', [(''Content-Type'', ''application/x-git-upload-pack-request'')])) (- 1),
         HostWrite (- 1) [1, 2] 2 (- 1)] \<and>
   is_post (Connect ''https://example.org/repo.git/git-upload-pack'' 65536
           (Some (''POST'', [(''Content-Type'', ''application/x-git-upload-pack-request'')])) (- 1))"
  by (simp add: action_then_calls_def emscriptenhttp_action_def emscriptenhttp_stream_alloc_def
      git__calloc_def NULL_def zeroed_stream_def GIT_STR_INIT_def git_str_printf_def
      git_str_cstr_def upload_pack_service_url_def
      emscriptenhttp_stream_read_def emscriptenhttp_do_get_def emscriptenhttp_do_read_def
      emscriptenhttp_stream_write_single_def emscriptenhttp_do_post_def
      em_asm_emscriptenhttpwrite_def
      git_error_set_def store_stream_def stream_at_def
      refusing_host_def empty_world_def DEFAULT_BUFSIZE_def Let_def)

text \<open>
  C9, amended. The first call on a new stream opens the connection, with GET when it is
  a read and with POST when it is a write. Provided the handle \<open>c\<close> the host returned is
  not the sentinel -1, every later call, read or write, makes exactly one host call, on
  the handle \<open>c\<close>; none of them is an open, neither POST nor GET, and the handle stays
  \<open>c\<close>.
\<close>

theorem stream_handle_reused:
  assumes "stream_at \<sigma> stream = Some s" and "connectionNo s = - 1"
    and "do_call M stream call \<sigma> = Some \<sigma>1" and "handle_at \<sigma>1 stream = Some c"
    and "c \<noteq> - 1"
  shows "(case call of Read_call _ _ \<Rightarrow> is_get (hd (new_calls \<sigma> \<sigma>1))
                     | Write_call _ _ \<Rightarrow> is_post (hd (new_calls \<sigma> \<sigma>1))) \<and>
         (\<exists>\<sigma>'. do_calls M stream calls \<sigma>1 = Some \<sigma>' \<and>
               handle_at \<sigma>' stream = Some c \<and>
               length (new_calls \<sigma>1 \<sigma>') = length calls \<and>
               list_all (on_handle c) (new_calls \<sigma>1 \<sigma>') \<and>
               \<not> list_ex is_post (new_calls \<sigma>1 \<sigma>') \<and>
               \<not> list_ex is_get (new_calls \<sigma>1 \<sigma>'))"
proof -
  from after_first_call [OF assms(1-4)] obtain e e' where 1:
    "stream_at \<sigma>1 stream = Some (s\<lparr>connectionNo := c\<rparr>)"
    "trace \<sigma>1 = trace \<sigma> @ [e, e']"
    "case call of Read_call _ _ \<Rightarrow> is_get e | Write_call _ _ \<Rightarrow> is_post e"
    by blast
  have "new_calls \<sigma> \<sigma>1 = [e, e']"
    using 1(2) by (rule new_calls_append)
  with 1(3) have first:
    "case call of Read_call _ _ \<Rightarrow> is_get (hd (new_calls \<sigma> \<sigma>1))
                | Write_call _ _ \<Rightarrow> is_post (hd (new_calls \<sigma> \<sigma>1))"
    by (cases call) simp_all
  have "connectionNo (s\<lparr>connectionNo := c\<rparr>) \<noteq> - 1"
    using assms(5) by simp
  from do_calls_opened [OF 1(1) this, of M calls] obtain \<sigma>' new where 2:
    "do_calls M stream calls \<sigma>1 = Some \<sigma>'" "stream_at \<sigma>' stream = Some (s\<lparr>connectionNo := c\<rparr>)"
    "trace \<sigma>' = trace \<sigma>1 @ new" "list_all (on_handle c) new" "length new = length calls"
    by auto
  have n1: "new_calls \<sigma>1 \<sigma>' = new"
    using 2(3) by (rule new_calls_append)
  have "\<not> list_ex is_post new" and "\<not> list_ex is_get new"
    using 2(4) by (rule list_all_on_handle)+
  with first 2 n1 show ?thesis
    by (simp add: handle_at_def)
qed

theorem stream_handle_reused_witness:
  "stream_at (world_with (Stream (stream_for (Some ''u'') (- 1)))) 1 =
     Some (stream_for (Some ''u'') (- 1)) \<and>
   connectionNo (stream_for (Some ''u'') (- 1)) = - 1 \<and>
   do_call counting_host 1 (Read_call [0, 0] 2) (world_with (Stream (stream_for (Some ''u'') (- 1)))) =
     Some \<lparr>heap = [(1, Stream (stream_for (Some ''u'') 0))], host = 1,
           trace = [Connect ''u'' 65536 None 0, HostRead 0 [0, 0] 2 3], git_error = None\<rparr> \<and>
   handle_at \<lparr>heap = [(1, Stream (stream_for (Some ''u'') 0))], host = 1 :: nat,
           trace = [Connect ''u'' 65536 None 0, HostRead 0 [0, 0] 2 3], git_error = None\<rparr> 1 =
     Some 0 \<and>
   (0 :: c_int) \<noteq> - 1 \<and>
   do_calls counting_host 1 [Write_call [1, 2] 2, Read_call [0, 0] 2]
       \<lparr>heap = [(1, Stream (stream_for (Some ''u'') 0))], host = 1 :: nat,
        trace = [Connect ''u'' 65536 None 0, HostRead 0 [0, 0] 2 3], git_error = None\<rparr> =
     Some \<lparr>heap = [(1, Stream (stream_for (Some ''u'') 0))], host = 1,
           trace = [Connect ''u'' 65536 None 0, HostRead 0 [0, 0] 2 3,
                    HostWrite 0 [1, 2] 2 0, HostRead 0 [0, 0] 2 3],
           git_error = None\<rparr>"
proof -
  let ?w = "world_with (Stream (stream_for (Some ''u'') (- 1)))"
  let ?w1 = "\<lparr>heap = [(1, Stream (stream_for (Some ''u'') 0))], host = 1 :: nat,
           trace = [Connect ''u'' 65536 None 0, HostRead 0 [0, 0] 2 3], git_error = None\<rparr>"
  have h1: "stream_at ?w 1 = Some (stream_for (Some ''u'') (- 1))"
    by (simp add: stream_at_def world_with_def)
  have h2: "connectionNo (stream_for (Some ''u'') (- 1)) = - 1"
    by (simp add: stream_for_def)
  have h3: "do_call counting_host 1 (Read_call [0, 0] 2) ?w = Some ?w1"
    by (simp add: emscriptenhttp_stream_read_def emscriptenhttp_do_get_def
        emscriptenhttp_do_read_def git_error_set_def store_stream_def stream_at_def
        world_with_def stream_for_def counting_host_def DEFAULT_BUFSIZE_def Let_def)
  have h4: "handle_at ?w1 1 = Some 0"
    by (simp add: handle_at_def stream_at_def stream_for_def)
  have h5: "(0 :: c_int) \<noteq> - 1"
    by simp
  have e: "do_calls counting_host 1 [Write_call [1, 2] 2, Read_call [0, 0] 2] ?w1 =
     Some \<lparr>heap = [(1, Stream (stream_for (Some ''u'') 0))], host = 1,
           trace = [Connect ''u'' 65536 None 0, HostRead 0 [0, 0] 2 3,
                    HostWrite 0 [1, 2] 2 0, HostRead 0 [0, 0] 2 3],
           git_error = None\<rparr>"
    by (simp add: emscriptenhttp_stream_read_def emscriptenhttp_do_get_def
        emscriptenhttp_do_read_def emscriptenhttp_stream_write_single_def
        emscriptenhttp_do_post_def em_asm_emscriptenhttpwrite_def
        git_error_set_def store_stream_def stream_at_def
        stream_for_def counting_host_def DEFAULT_BUFSIZE_def Let_def)
  show ?thesis
    using h1 h2 h3 h4 h5 e
      stream_handle_reused [OF h1 h2 h3 h4 h5, of "[Write_call [1, 2] 2, Read_call [0, 0] 2]"]
    by blast
qed

subsection \<open>Freeing\<close>

lemma git__free_releases:
  assumes "p \<noteq> NULL" and "map_of (heap \<sigma>) p = Some x"
  shows "git__free p \<sigma> = Some (\<sigma>\<lparr>heap := AList.delete p (heap \<sigma>)\<rparr>)"
  using assms by (simp add: git__free_def)

subsection \<open>C7: closing and freeing a subtransport\<close>

text \<open>
  C7. \<open>emscriptenhttp_close\<close> returns 0 and changes nothing. \<open>emscriptenhttp_free\<close> is
  the close followed by \<^verbatim>\<open>git__free\<close> of the subtransport: the subtransport's address
  holds no object afterwards, every other object (the streams it made included) stays,
  no host call is made and no error is stored.
\<close>

theorem emscriptenhttp_close_free:
  assumes "subtransport \<noteq> NULL" and "subtransport_at \<sigma> subtransport = Some t"
  shows "emscriptenhttp_close subtransport \<sigma> = (0, \<sigma>) \<and>
         emscriptenhttp_free subtransport \<sigma> =
           git__free subtransport (snd (emscriptenhttp_close subtransport \<sigma>)) \<and>
         (\<exists>\<sigma>'. emscriptenhttp_free subtransport \<sigma> = Some \<sigma>' \<and>
               map_of (heap \<sigma>') subtransport = None \<and>
               (\<forall>p. p \<noteq> subtransport \<longrightarrow> map_of (heap \<sigma>') p = map_of (heap \<sigma>) p) \<and>
               host \<sigma>' = host \<sigma> \<and> trace \<sigma>' = trace \<sigma> \<and> git_error \<sigma>' = git_error \<sigma>)"
proof -
  from assms(2) obtain x where x: "map_of (heap \<sigma>) subtransport = Some x"
    by (auto simp: subtransport_at_def split: option.splits)
  have c: "emscriptenhttp_close subtransport \<sigma> = (0, \<sigma>)"
    by (simp add: emscriptenhttp_close_def)
  have f: "emscriptenhttp_free subtransport \<sigma> =
             git__free subtransport (snd (emscriptenhttp_close subtransport \<sigma>))"
    by (simp add: emscriptenhttp_free_def emscriptenhttp_close_def)
  have g: "emscriptenhttp_free subtransport \<sigma> =
             Some (\<sigma>\<lparr>heap := AList.delete subtransport (heap \<sigma>)\<rparr>)"
    using f c git__free_releases [OF assms(1) x] by simp
  have r: "git__free subtransport (snd (emscriptenhttp_close subtransport \<sigma>)) =
             Some (\<sigma>\<lparr>heap := AList.delete subtransport (heap \<sigma>)\<rparr>)"
    using f g by simp
  show ?thesis
    unfolding g r using c by (simp add: delete_conv')
qed

theorem emscriptenhttp_close_free_witness:
  "(1 :: addr) \<noteq> NULL \<and>
   subtransport_at (world_with (Subtransport (subtransport_for 9))) 1 = Some (subtransport_for 9) \<and>
   emscriptenhttp_close 1 (world_with (Subtransport (subtransport_for 9))) =
     (0, world_with (Subtransport (subtransport_for 9))) \<and>
   emscriptenhttp_free 1 (world_with (Subtransport (subtransport_for 9))) = Some empty_world"
proof -
  have n: "(1 :: addr) \<noteq> NULL"
    by (simp add: NULL_def)
  have h: "subtransport_at (world_with (Subtransport (subtransport_for 9))) 1 =
             Some (subtransport_for 9)"
    by (simp add: subtransport_at_def world_with_def)
  have e: "emscriptenhttp_free 1 (world_with (Subtransport (subtransport_for 9))) = Some empty_world"
    by (simp add: emscriptenhttp_free_def emscriptenhttp_close_def git__free_def NULL_def
        world_with_def empty_world_def AList.delete_eq)
  show ?thesis
    using n h e emscriptenhttp_close_free [OF n h]
    by simp
qed

subsection \<open>C8: freeing a stream\<close>

text \<open>
  C8. \<open>emscriptenhttp_stream_free\<close> releases the stream and does nothing else: the
  address holds no object afterwards, every other object stays, and the host's state and
  the record of host calls are as before, whatever the stream's handle (opened or not).
\<close>

theorem emscriptenhttp_stream_free_no_host_call:
  assumes "stream \<noteq> NULL" and "stream_at \<sigma> stream = Some s"
  shows "\<exists>\<sigma>'. emscriptenhttp_stream_free stream \<sigma> = Some \<sigma>' \<and>
               map_of (heap \<sigma>') stream = None \<and>
               (\<forall>p. p \<noteq> stream \<longrightarrow> map_of (heap \<sigma>') p = map_of (heap \<sigma>) p) \<and>
               host \<sigma>' = host \<sigma> \<and> trace \<sigma>' = trace \<sigma> \<and> git_error \<sigma>' = git_error \<sigma>"
proof -
  from assms(2) obtain x where x: "map_of (heap \<sigma>) stream = Some x"
    by (auto simp: stream_at_def split: option.splits)
  have g: "emscriptenhttp_stream_free stream \<sigma> =
             Some (\<sigma>\<lparr>heap := AList.delete stream (heap \<sigma>)\<rparr>)"
    using git__free_releases [OF assms(1) x] by (simp add: emscriptenhttp_stream_free_def)
  show ?thesis
    unfolding g by (simp add: delete_conv')
qed

theorem emscriptenhttp_stream_free_no_host_call_witness:
  "(1 :: addr) \<noteq> NULL \<and>
   stream_at \<lparr>heap = [(1, Stream (stream_for (Some ''u'') 0))], host = 1 :: nat,
             trace = [Connect ''u'' 65536 None 0, HostRead 0 [0, 0, 0, 0] 4 3],
             git_error = None\<rparr> 1 = Some (stream_for (Some ''u'') 0) \<and>
   emscriptenhttp_stream_free 1
       \<lparr>heap = [(1, Stream (stream_for (Some ''u'') 0))], host = 1 :: nat,
        trace = [Connect ''u'' 65536 None 0, HostRead 0 [0, 0, 0, 0] 4 3],
        git_error = None\<rparr> =
     Some \<lparr>heap = [], host = 1,
           trace = [Connect ''u'' 65536 None 0, HostRead 0 [0, 0, 0, 0] 4 3],
           git_error = None\<rparr>"
proof -
  have n: "(1 :: addr) \<noteq> NULL"
    by (simp add: NULL_def)
  have h: "stream_at \<lparr>heap = [(1, Stream (stream_for (Some ''u'') 0))], host = 1 :: nat,
             trace = [Connect ''u'' 65536 None 0, HostRead 0 [0, 0, 0, 0] 4 3],
             git_error = None\<rparr> 1 = Some (stream_for (Some ''u'') 0)"
    by (simp add: stream_at_def)
  have e: "emscriptenhttp_stream_free 1
       \<lparr>heap = [(1, Stream (stream_for (Some ''u'') 0))], host = 1 :: nat,
        trace = [Connect ''u'' 65536 None 0, HostRead 0 [0, 0, 0, 0] 4 3],
        git_error = None\<rparr> =
     Some \<lparr>heap = [], host = 1,
           trace = [Connect ''u'' 65536 None 0, HostRead 0 [0, 0, 0, 0] 4 3],
           git_error = None\<rparr>"
    by (simp add: emscriptenhttp_stream_free_def git__free_def NULL_def AList.delete_eq)
  show ?thesis
    using n h e emscriptenhttp_stream_free_no_host_call [OF n h]
    by simp
qed

end
